theory Spec2Isabelle
  imports Main "HOL-Library.AList"
begin

section \<open>The model trainer of networksecurity/components/model\_trainer.py\<close>

text \<open>
  The file is an orchestration script: it reads three credentials when the module is
  loaded, and its class \<open>ModelTrainer\<close> loads two arrays, has a fixed set of candidate
  models fitted and scored, picks the best one, logs a run to the tracking client and
  pickles the result. Everything it calls (dotenv, numpy loading, \<open>evaluate_models\<close>,
  the estimators' \<open>predict\<close>, \<open>get_classification_score\<close>, mlflow, \<open>urlparse\<close>,
  \<open>os.path\<close>, \<open>os.makedirs\<close>, \<open>load_object\<close>, \<open>save_object\<close>) lives outside the file.
  The embedding therefore takes these collaborators as parameters (a record of
  functions that return a value or raise), and records every call the file makes, with
  its arguments and its outcome, in a trace. The statements below are about the
  values returned, the exceptions raised and the trace.
\<close>

subsection \<open>Exceptions\<close>

text \<open>
  Instances of Python's \<open>Exception\<close>. \<open>Raised_by\<close> stands for any exception a
  collaborator raises, named by its text. \<open>NetworkSecurityException(e, sys)\<close> keeps the
  exception it wraps and the \<open>sys\<close> module, from which it reads the place of the failure.
  Exceptions outside \<open>Exception\<close> (a keyboard interrupt, a system exit) are not modelled.
\<close>

datatype sys_module = Sys

datatype exn =
    EnvironmentError string
  | ValueError string
  | KeyError string
  | IndexError string
  | AttributeError string
  | TypeError string
  | Raised_by string
  | NetworkSecurityException exn sys_module

subsection \<open>Data\<close>

text \<open>
  A value of a hyperparameter grid. A float literal of the source is kept as the
  decimal written there: \<open>FloatV m d\<close> is the literal whose value is \<open>m / 10 ^ d\<close>
  (\<open>.05\<close> is \<open>FloatV 5 2\<close>).
\<close>

datatype param_value = IntV int | FloatV nat nat | StrV string

datatype estimator_class =
    RandomForestClassifier
  | DecisionTreeClassifier
  | GradientBoostingClassifier
  | LogisticRegression
  | AdaBoostClassifier

text \<open>
  An estimator: its class, the keyword arguments it was built or configured with, and
  what fitting has learned (\<open>None\<close> for an estimator not yet fitted). The type \<open>'f\<close> of
  fitted states belongs to the learning library.
\<close>

datatype 'f estimator =
  Estimator (cls: estimator_class) (kwargs: "(string \<times> param_value) list") (fitted: "'f option")

type_synonym param_grid = "(string \<times> (string \<times> param_value list) list) list"

text \<open>
  A two-dimensional numeric array of shape \<open>(length (rows a), ncols a)\<close>, as the upstream
  transformation stage writes it. The number of columns is kept apart from the rows, as
  an array with no row still has its columns. \<open>'r\<close> is the type of floats; nothing here
  computes with them, they are only compared, so all that is asked of \<open>'r\<close> is that it
  has the comparisons \<open><\<close> and \<open>\<le>\<close> (no law is assumed of them).
\<close>

record 'r ndarray =
  ncols :: nat
  rows :: "'r list list"

definition wf_ndarray :: "'r ndarray \<Rightarrow> bool" where
  "wf_ndarray a = list_all (\<lambda>r. length r = ncols a) (rows a)"

definition column :: "nat \<Rightarrow> 'r ndarray \<Rightarrow> 'r list" where
  "column j a = map (\<lambda>r. r ! j) (rows a)"

record ModelTrainerConfig =
  trained_model_file_path :: string

record DataTransformationArtifact =
  transformed_object_file_path :: string
  transformed_train_file_path :: string
  transformed_test_file_path :: string

record 'r ClassificationMetricArtifact =
  f1_score :: 'r
  precision_score :: 'r
  recall_score :: 'r

record 'r ModelTrainerArtifact =
  trained_model_file_path :: string
  train_metric_artifact :: "'r ClassificationMetricArtifact"
  test_metric_artifact :: "'r ClassificationMetricArtifact"

record ('f, 'p) NetworkModel =
  preprocessor :: 'p
  model :: "'f estimator"

text \<open>The two kinds of object the file hands to \<open>save_object\<close>.\<close>

datatype ('f, 'p) pyobject =
    Obj_NetworkModel "('f, 'p) NetworkModel"
  | Obj_estimator "'f estimator"

record ParseResult =
  scheme :: string

text \<open>
  The trainer object. The attribute \<open>best_model_name\<close> does not exist until
  \<open>train_model\<close> assigns it.
\<close>

record ModelTrainer =
  model_trainer_config :: ModelTrainerConfig
  data_transformation_artifact :: DataTransformationArtifact
  best_model_name :: "string option"

subsection \<open>The trace of calls\<close>

text \<open>
  One event for each call that leaves the file, in the order made: the call's arguments
  and its outcome, \<open>Inr\<close> the value returned or \<open>Inl\<close> the exception raised.
  \<open>Environ_setitem k v\<close> is the assignment \<open>os.environ[k] = v\<close>. \<open>Mlflow_run_exit\<close> is
  the exit of the \<open>with mlflow.start_run(...)\<close> block, which receives the exception in
  flight, if any.
\<close>

datatype ('r, 'f, 'p) event =
    Load_dotenv "exn + (string \<times> string) list"
  | Environ_setitem string string
  | Load_numpy_array_data string "exn + 'r ndarray"
  | Evaluate_models "'r ndarray" "'r list" "'r ndarray" "'r list"
      "(string \<times> 'f estimator) list" param_grid
      "exn + ((string \<times> 'r) list \<times> (string \<times> 'f estimator) list)"
  | Predict "'f estimator" "'r ndarray" "exn + 'r list"
  | Get_classification_score "'r list" "'r list" "exn + 'r ClassificationMetricArtifact"
  | Mlflow_set_registry_uri "string option" "exn + unit"
  | Mlflow_get_tracking_uri "exn + string"
  | Urlparse string "exn + ParseResult"
  | Mlflow_start_run string "exn + unit"
  | Mlflow_run_exit "exn option" "exn + unit"
  | Mlflow_set_tag string string "exn + unit"
  | Mlflow_log_metric string 'r "exn + unit"
  | Mlflow_sklearn_log_model "'f estimator" string "string option" "exn + unit"
  | Load_object string "exn + 'p"
  | Os_makedirs string bool "exn + unit"
  | Save_object string "('f, 'p) pyobject" "exn + unit"

definition err_of :: "exn + 'a \<Rightarrow> exn option" where
  "err_of r = (case r of Inl e \<Rightarrow> Some e | Inr _ \<Rightarrow> None)"

text \<open>The exception an event ended with, if it raised.\<close>

fun failure :: "('r, 'f, 'p) event \<Rightarrow> exn option" where
  "failure (Load_dotenv r) = err_of r"
| "failure (Environ_setitem k v) = None"
| "failure (Load_numpy_array_data p r) = err_of r"
| "failure (Evaluate_models X y Xt yt ms ps r) = err_of r"
| "failure (Predict m X r) = err_of r"
| "failure (Get_classification_score y yp r) = err_of r"
| "failure (Mlflow_set_registry_uri u r) = err_of r"
| "failure (Mlflow_get_tracking_uri r) = err_of r"
| "failure (Urlparse u r) = err_of r"
| "failure (Mlflow_start_run n r) = err_of r"
| "failure (Mlflow_run_exit x r) = err_of r"
| "failure (Mlflow_set_tag k v r) = err_of r"
| "failure (Mlflow_log_metric k v r) = err_of r"
| "failure (Mlflow_sklearn_log_model m p n r) = err_of r"
| "failure (Load_object p r) = err_of r"
| "failure (Os_makedirs p b r) = err_of r"
| "failure (Save_object p ob r) = err_of r"

fun is_run_exit :: "('r, 'f, 'p) event \<Rightarrow> bool" where
  "is_run_exit (Mlflow_run_exit x r) = True"
| "is_run_exit _ = False"

fun is_save_object :: "('r, 'f, 'p) event \<Rightarrow> bool" where
  "is_save_object (Save_object p ob r) = True"
| "is_save_object _ = False"


text \<open>The exceptions raised along a trace, and the events after the first that raised.\<close>

definition raised :: "('r, 'f, 'p) event list \<Rightarrow> exn list" where
  "raised evs = List.map_filter failure evs"

definition after_first_failure :: "('r, 'f, 'p) event list \<Rightarrow> ('r, 'f, 'p) event list" where
  "after_first_failure evs = tl (dropWhile (\<lambda>ev. failure ev = None) evs)"

subsection \<open>The process state\<close>

text \<open>
  \<open>environ\<close> is \<open>os.environ\<close>, a dictionary in insertion order. A \<open>frame\<close> is the state a
  method runs in: the world and the trainer object \<open>self\<close>.
\<close>

record ('r, 'f, 'p) world =
  environ :: "(string \<times> string) list"
  trace :: "('r, 'f, 'p) event list"

record ('r, 'f, 'p) frame = "('r, 'f, 'p) world" +
  self :: ModelTrainer

subsection \<open>The collaborators\<close>

text \<open>
  What a collaborator returns or raises may depend on its arguments and on all that has
  happened before (the world at the time of the call). \<open>load_dotenv\<close> returns the
  assignments it makes to \<open>os.environ\<close>. \<open>evaluate_models\<close> fits the estimators of the
  dictionary it is given in place: it returns its report together with the dictionary
  as it leaves it. \<open>run_exit\<close> is the exit handler of the run \<open>start_run\<close> opened; as
  mlflow's does, it leaves an exception in flight to propagate. \<open>urlparse\<close> and
  \<open>os_path_dirname\<close> are pure functions of their argument.
\<close>

record ('r, 'f, 'p) mlflow_client =
  set_registry_uri :: "string option \<Rightarrow> ('r, 'f, 'p) world \<Rightarrow> exn + unit"
  get_tracking_uri :: "('r, 'f, 'p) world \<Rightarrow> exn + string"
  start_run :: "string \<Rightarrow> ('r, 'f, 'p) world \<Rightarrow> exn + unit"
  run_exit :: "exn option \<Rightarrow> ('r, 'f, 'p) world \<Rightarrow> exn + unit"
  set_tag :: "string \<Rightarrow> string \<Rightarrow> ('r, 'f, 'p) world \<Rightarrow> exn + unit"
  log_metric :: "string \<Rightarrow> 'r \<Rightarrow> ('r, 'f, 'p) world \<Rightarrow> exn + unit"
  sklearn_log_model ::
    "'f estimator \<Rightarrow> string \<Rightarrow> string option \<Rightarrow> ('r, 'f, 'p) world \<Rightarrow> exn + unit"

record ('r, 'f, 'p) collaborators =
  load_dotenv :: "('r, 'f, 'p) world \<Rightarrow> exn + (string \<times> string) list"
  load_numpy_array_data :: "string \<Rightarrow> ('r, 'f, 'p) world \<Rightarrow> exn + 'r ndarray"
  evaluate_models ::
    "'r ndarray \<Rightarrow> 'r list \<Rightarrow> 'r ndarray \<Rightarrow> 'r list \<Rightarrow> (string \<times> 'f estimator) list \<Rightarrow>
     param_grid \<Rightarrow> ('r, 'f, 'p) world \<Rightarrow>
     exn + ((string \<times> 'r) list \<times> (string \<times> 'f estimator) list)"
  predict :: "'f estimator \<Rightarrow> 'r ndarray \<Rightarrow> ('r, 'f, 'p) world \<Rightarrow> exn + 'r list"
  get_classification_score ::
    "'r list \<Rightarrow> 'r list \<Rightarrow> ('r, 'f, 'p) world \<Rightarrow> exn + 'r ClassificationMetricArtifact"
  mlflow :: "('r, 'f, 'p) mlflow_client"
  urlparse :: "string \<Rightarrow> exn + ParseResult"
  os_path_dirname :: "string \<Rightarrow> string"
  os_makedirs :: "string \<Rightarrow> bool \<Rightarrow> ('r, 'f, 'p) world \<Rightarrow> exn + unit"
  load_object :: "string \<Rightarrow> ('r, 'f, 'p) world \<Rightarrow> exn + 'p"
  save_object :: "string \<Rightarrow> ('f, 'p) pyobject \<Rightarrow> ('r, 'f, 'p) world \<Rightarrow> exn + unit"

subsection \<open>Statements in sequence\<close>

text \<open>
  A computation takes the state and gives a value or an exception, and the state it
  leaves: the effects made before an exception stay made.
\<close>

type_synonym ('a, 's) py = "'s \<Rightarrow> (exn + 'a) \<times> 's"

definition py_return :: "'a \<Rightarrow> ('a, 's) py" where
  "py_return v = (\<lambda>s. (Inr v, s))"

definition py_raise :: "exn \<Rightarrow> ('a, 's) py" where
  "py_raise e = (\<lambda>s. (Inl e, s))"

definition py_lift :: "exn + 'a \<Rightarrow> ('a, 's) py" where
  "py_lift r = (\<lambda>s. (r, s))"

definition py_bind :: "('a, 's) py \<Rightarrow> ('a \<Rightarrow> ('b, 's) py) \<Rightarrow> ('b, 's) py" where
  "py_bind m f = (\<lambda>s. case m s of (Inl e, s') \<Rightarrow> (Inl e, s') | (Inr v, s') \<Rightarrow> f v s')"

text \<open>\<open>try: m except Exception as e: h e\<close>\<close>

definition try_except :: "('a, 's) py \<Rightarrow> (exn \<Rightarrow> ('a, 's) py) \<Rightarrow> ('a, 's) py" where
  "try_except m h = (\<lambda>s. case m s of (Inl e, s') \<Rightarrow> h e s' | (Inr v, s') \<Rightarrow> (Inr v, s'))"

text \<open>A call of a collaborator: its outcome is appended to the trace.\<close>

definition invoke ::
  "(exn + 'a \<Rightarrow> ('r, 'f, 'p) event) \<Rightarrow> (('r, 'f, 'p) world \<Rightarrow> exn + 'a) \<Rightarrow>
   ('a, ('r, 'f, 'p, 'z) world_scheme) py" where
  "invoke ev f = (\<lambda>s. let r = f (world.truncate s) in (r, s\<lparr>trace := trace s @ [ev r]\<rparr>))"

text \<open>\<open>os.getenv(k)\<close>: the value, or \<open>None\<close>.\<close>

definition os_getenv :: "string \<Rightarrow> (string option, ('r, 'f, 'p, 'z) world_scheme) py" where
  "os_getenv k = (\<lambda>s. (Inr (map_of (environ s) k), s))"

text \<open>\<open>os.environ[k] = v\<close>, where \<open>v\<close> may be \<open>None\<close>, which the assignment refuses.\<close>

definition environ_setitem ::
  "string \<Rightarrow> string option \<Rightarrow> (unit, ('r, 'f, 'p, 'z) world_scheme) py" where
  "environ_setitem k v =
     (case v of
        None \<Rightarrow> py_raise (TypeError ''str expected, not NoneType'')
      | Some x \<Rightarrow>
          (\<lambda>s. (Inr (), s\<lparr>environ := AList.update k x (environ s),
                           trace := trace s @ [Environ_setitem k x]\<rparr>)))"

text \<open>The truth value of \<open>os.getenv\<close>'s result: \<open>None\<close> and the empty string are false.\<close>

definition truthy :: "string option \<Rightarrow> bool" where
  "truthy v = (case v of None \<Rightarrow> False | Some x \<Rightarrow> x \<noteq> [])"

definition py_all :: "bool list \<Rightarrow> bool" where
  "py_all bs = list_all (\<lambda>b. b) bs"


subsection \<open>Built-in operations that can raise\<close>

text \<open>
  Python's floats: the numbers (\<open>Num\<close>, over any linear order \<open>'a\<close> of numbers, the
  infinities among them) and \<open>NaN\<close>. Every comparison with \<open>NaN\<close> is false, also that of
  \<open>NaN\<close> with itself.
\<close>

datatype 'a pyfloat = NaN | Num 'a

instantiation pyfloat :: (ord) ord
begin

definition less_eq_pyfloat :: "'a pyfloat \<Rightarrow> 'a pyfloat \<Rightarrow> bool" where
  "less_eq_pyfloat x y =
     (case x of
        NaN \<Rightarrow> False
      | Num a \<Rightarrow> (case y of NaN \<Rightarrow> False | Num b \<Rightarrow> a \<le> b))"

definition less_pyfloat :: "'a pyfloat \<Rightarrow> 'a pyfloat \<Rightarrow> bool" where
  "less_pyfloat x y =
     (case x of
        NaN \<Rightarrow> False
      | Num a \<Rightarrow> (case y of NaN \<Rightarrow> False | Num b \<Rightarrow> a < b))"

instance ..

end

text \<open>
  \<open>max(xs)\<close> keeps the first item and replaces it only by a later item that is
  greater: of several greatest items it returns the first, and an item that no
  comparison finds smaller (a \<open>NaN\<close> in the first place) is never replaced.
\<close>

definition py_max :: "('r::ord) list \<Rightarrow> exn + 'r" where
  "py_max xs =
     (case xs of
        [] \<Rightarrow> Inl (ValueError ''max() arg is an empty sequence'')
      | x # rest \<Rightarrow> Inr (foldl (\<lambda>maxitem item. if item > maxitem then item else maxitem) x rest))"

text \<open>
  \<open>xs.index(v)\<close>: the first position that holds \<open>v\<close>. An item that is the object \<open>v\<close>
  itself counts as equal to it before \<open>==\<close> is asked, so the \<open>NaN\<close> that \<open>max\<close> has
  returned from the first place is found there.
\<close>

fun list_index :: "'a list \<Rightarrow> 'a \<Rightarrow> exn + nat" where
  "list_index [] v = Inl (ValueError ''value is not in list'')"
| "list_index (x # xs) v =
     (if x = v then Inr 0
      else (case list_index xs v of Inl e \<Rightarrow> Inl e | Inr i \<Rightarrow> Inr (Suc i)))"

definition list_getitem :: "'a list \<Rightarrow> nat \<Rightarrow> exn + 'a" where
  "list_getitem xs i =
     (if i < length xs then Inr (xs ! i) else Inl (IndexError ''list index out of range''))"

definition dict_getitem :: "(string \<times> 'v) list \<Rightarrow> string \<Rightarrow> exn + 'v" where
  "dict_getitem d k = (case map_of d k of None \<Rightarrow> Inl (KeyError k) | Some v \<Rightarrow> Inr v)"

text \<open>\<open>arr[:, :-1]\<close>: every column but the last (of no column, none).\<close>

definition all_but_last_column :: "'r ndarray \<Rightarrow> 'r ndarray" where
  "all_but_last_column a = \<lparr>ncols = ncols a - 1, rows = map butlast (rows a)\<rparr>"

text \<open>\<open>arr[:, -1]\<close>: the last column, a one-dimensional array; numpy refuses the index
  when the array has no column.\<close>

definition last_column :: "'r ndarray \<Rightarrow> exn + 'r list" where
  "last_column a =
     (if ncols a = 0 then Inl (IndexError ''index -1 is out of bounds for axis 1 with size 0'')
      else Inr (map last (rows a)))"

text \<open>The right-hand side \<open>arr[:, :-1], arr[:, -1]\<close> of lines 146 and 147.\<close>

definition features_and_labels :: "'r ndarray \<Rightarrow> exn + ('r ndarray \<times> 'r list)" where
  "features_and_labels arr =
     (let X = all_but_last_column arr
      in (case last_column arr of Inl e \<Rightarrow> Inl e | Inr y \<Rightarrow> Inr (X, y)))"

subsection \<open>The module body (lines 24 to 35)\<close>

definition environ_assign ::
  "(string \<times> string) list \<Rightarrow> (unit, ('r, 'f, 'p, 'z) world_scheme) py" where
  "environ_assign kvs =
     (\<lambda>s. (Inr (), s\<lparr>environ := fold (\<lambda>(k, v). AList.update k v) kvs (environ s)\<rparr>))"

definition module_body ::
  "('r, 'f, 'p) collaborators \<Rightarrow> (unit, ('r, 'f, 'p, 'z) world_scheme) py" where
  "module_body c =
     py_bind (invoke Load_dotenv (load_dotenv c)) (\<lambda>assignments.
     py_bind (environ_assign assignments) (\<lambda>_.
     py_bind (os_getenv ''MLFLOW_TRACKING_URI'') (\<lambda>mlflow_uri.
     py_bind (os_getenv ''MLFLOW_TRACKING_USERNAME'') (\<lambda>mlflow_user.
     py_bind (os_getenv ''MLFLOW_TRACKING_PASSWORD'') (\<lambda>mlflow_pass.
     if \<not> py_all [truthy mlflow_uri, truthy mlflow_user, truthy mlflow_pass]
     then py_raise (EnvironmentError
       ''Missing one or more required MLFLOW environment variables in your .env file.'')
     else
       py_bind (environ_setitem ''MLFLOW_TRACKING_URI'' mlflow_uri) (\<lambda>_.
       py_bind (environ_setitem ''MLFLOW_TRACKING_USERNAME'' mlflow_user) (\<lambda>_.
       environ_setitem ''MLFLOW_TRACKING_PASSWORD'' mlflow_pass)))))))"

subsection \<open>The class ModelTrainer\<close>

text \<open>\<open>__init__\<close>: the two assignments cannot raise, so its handler is never entered.\<close>

definition init :: "ModelTrainerConfig \<Rightarrow> DataTransformationArtifact \<Rightarrow> ModelTrainer" where
  "init config artifact =
     \<lparr>model_trainer_config = config, data_transformation_artifact = artifact,
      best_model_name = None\<rparr>"

definition get_self :: "(ModelTrainer, ('r, 'f, 'p) frame) py" where
  "get_self = (\<lambda>s. (Inr (self s), s))"

definition set_best_model_name :: "string \<Rightarrow> (unit, ('r, 'f, 'p) frame) py" where
  "set_best_model_name n = (\<lambda>s. (Inr (), s\<lparr>self := (self s)\<lparr>best_model_name := Some n\<rparr>\<rparr>))"

definition get_best_model_name :: "(string, ('r, 'f, 'p) frame) py" where
  "get_best_model_name =
     (\<lambda>s. case best_model_name (self s) of
        None \<Rightarrow> (Inl (AttributeError
          ''ModelTrainer object has no attribute best_model_name''), s)
      | Some n \<Rightarrow> (Inr n, s))"

text \<open>The candidate models and the hyperparameter grids of lines 48 to 73.\<close>

definition models :: "(string \<times> 'f estimator) list" where
  "models =
     [(''Random Forest'', Estimator RandomForestClassifier [(''verbose'', IntV 1)] None),
      (''Decision Tree'', Estimator DecisionTreeClassifier [] None),
      (''Gradient Boosting'', Estimator GradientBoostingClassifier [(''verbose'', IntV 1)] None),
      (''Logistic Regression'', Estimator LogisticRegression [(''verbose'', IntV 1)] None),
      (''AdaBoost'', Estimator AdaBoostClassifier [] None)]"

definition params :: param_grid where
  "params =
     [(''Decision Tree'',
         [(''criterion'', [StrV ''gini'', StrV ''entropy'', StrV ''log_loss''])]),
      (''Random Forest'',
         [(''n_estimators'', [IntV 8, IntV 16, IntV 32, IntV 128, IntV 256])]),
      (''Gradient Boosting'',
         [(''learning_rate'', [FloatV 1 1, FloatV 1 2, FloatV 5 2, FloatV 1 3]),
          (''subsample'', [FloatV 6 1, FloatV 7 1, FloatV 75 2, FloatV 85 2, FloatV 9 1]),
          (''n_estimators'', [IntV 8, IntV 16, IntV 32, IntV 64, IntV 128, IntV 256])]),
      (''Logistic Regression'', []),
      (''AdaBoost'',
         [(''learning_rate'', [FloatV 1 1, FloatV 1 2, FloatV 1 3]),
          (''n_estimators'', [IntV 8, IntV 16, IntV 32, IntV 64, IntV 128, IntV 256])])]"

text \<open>
  \<open>with mlflow.start_run(run_name=...)\<close>: the run is opened, the body runs, and the
  exit handler is called with the body's exception, if it raised one. The body's
  exception then propagates, unless the exit handler itself raises.
\<close>

definition with_start_run ::
  "('r, 'f, 'p) collaborators \<Rightarrow> string \<Rightarrow> ('a, ('r, 'f, 'p, 'z) world_scheme) py \<Rightarrow>
   ('a, ('r, 'f, 'p, 'z) world_scheme) py" where
  "with_start_run c run_name body =
     py_bind (invoke (Mlflow_start_run run_name) (start_run (mlflow c) run_name)) (\<lambda>_.
     (\<lambda>s. case body s of
        (Inr v, s') \<Rightarrow>
          py_bind (invoke (Mlflow_run_exit None) (run_exit (mlflow c) None))
            (\<lambda>_. py_return v) s'
      | (Inl e, s') \<Rightarrow>
          py_bind (invoke (Mlflow_run_exit (Some e)) (run_exit (mlflow c) (Some e)))
            (\<lambda>_. py_raise e) s'))"

definition mlflow_set_tag ::
  "('r, 'f, 'p) collaborators \<Rightarrow> string \<Rightarrow> string \<Rightarrow> (unit, ('r, 'f, 'p, 'z) world_scheme) py" where
  "mlflow_set_tag c k v = invoke (Mlflow_set_tag k v) (set_tag (mlflow c) k v)"

definition mlflow_log_metric ::
  "('r, 'f, 'p) collaborators \<Rightarrow> string \<Rightarrow> 'r \<Rightarrow> (unit, ('r, 'f, 'p, 'z) world_scheme) py" where
  "mlflow_log_metric c k v = invoke (Mlflow_log_metric k v) (log_metric (mlflow c) k v)"

definition mlflow_sklearn_log_model ::
  "('r, 'f, 'p) collaborators \<Rightarrow> 'f estimator \<Rightarrow> string \<Rightarrow> string option \<Rightarrow>
   (unit, ('r, 'f, 'p, 'z) world_scheme) py" where
  "mlflow_sklearn_log_model c m path registered_model_name =
     invoke (Mlflow_sklearn_log_model m path registered_model_name)
       (sklearn_log_model (mlflow c) m path registered_model_name)"

text \<open>\<open>track_mlflow\<close> (lines 113 to 136).\<close>

definition track_mlflow ::
  "('r, 'f, 'p) collaborators \<Rightarrow> 'f estimator \<Rightarrow> 'r ClassificationMetricArtifact \<Rightarrow>
   'r ClassificationMetricArtifact \<Rightarrow> (unit, ('r, 'f, 'p) frame) py" where
  "track_mlflow c best_model train_metrics test_metrics =
     py_bind (os_getenv ''MLFLOW_TRACKING_URI'') (\<lambda>uri.
     py_bind (invoke (Mlflow_set_registry_uri uri) (set_registry_uri (mlflow c) uri)) (\<lambda>_.
     py_bind (invoke Mlflow_get_tracking_uri (get_tracking_uri (mlflow c))) (\<lambda>tracking_uri.
     py_bind (invoke (Urlparse tracking_uri) (\<lambda>_. urlparse c tracking_uri)) (\<lambda>parsed.
     let tracking_url_type_store = scheme parsed in
     py_bind get_best_model_name (\<lambda>run_model_name.
     with_start_run c (run_model_name @ ''_experiment'') (
       py_bind get_best_model_name (\<lambda>tag_model_name.
       py_bind (mlflow_set_tag c ''model_name'' tag_model_name) (\<lambda>_.
       py_bind (mlflow_set_tag c ''author'' ''Utsav'') (\<lambda>_.
       py_bind (mlflow_log_metric c ''train_f1_score'' (f1_score train_metrics)) (\<lambda>_.
       py_bind (mlflow_log_metric c ''train_precision'' (precision_score train_metrics)) (\<lambda>_.
       py_bind (mlflow_log_metric c ''train_recall'' (recall_score train_metrics)) (\<lambda>_.
       py_bind (mlflow_log_metric c ''test_f1_score'' (f1_score test_metrics)) (\<lambda>_.
       py_bind (mlflow_log_metric c ''test_precision'' (precision_score test_metrics)) (\<lambda>_.
       py_bind (mlflow_log_metric c ''test_recall'' (recall_score test_metrics)) (\<lambda>_.
       if tracking_url_type_store \<noteq> ''file''
       then py_bind get_best_model_name (\<lambda>registered_model_name.
              mlflow_sklearn_log_model c best_model ''model'' (Some registered_model_name))
       else mlflow_sklearn_log_model c best_model ''model'' None)))))))))))))))"

text \<open>
  \<open>train_model\<close> (lines 47 to 111). \<open>models'\<close> is the dictionary \<open>models\<close> as
  \<open>evaluate_models\<close> leaves it, its estimators fitted.
\<close>

definition train_model ::
  "('r::ord, 'f, 'p) collaborators \<Rightarrow> 'r ndarray \<Rightarrow> 'r list \<Rightarrow> 'r ndarray \<Rightarrow> 'r list \<Rightarrow>
   ('r ModelTrainerArtifact, ('r, 'f, 'p) frame) py" where
  "train_model c X_train y_train X_test y_test =
     py_bind (invoke (Evaluate_models X_train y_train X_test y_test models params)
                (evaluate_models c X_train y_train X_test y_test models params))
       (\<lambda>(model_report, models').
     py_bind (py_lift (py_max (map snd model_report))) (\<lambda>best_model_score.
     py_bind (py_lift (list_index (map snd model_report) best_model_score)) (\<lambda>idx.
     py_bind (py_lift (list_getitem (map fst model_report) idx)) (\<lambda>name.
     py_bind (set_best_model_name name) (\<lambda>_.
     py_bind (py_lift (dict_getitem models' name)) (\<lambda>best_model.
     py_bind (invoke (Predict best_model X_train) (predict c best_model X_train))
       (\<lambda>y_train_pred.
     py_bind (invoke (Get_classification_score y_train y_train_pred)
                (get_classification_score c y_train y_train_pred))
       (\<lambda>classification_train_metric.
     py_bind (invoke (Predict best_model X_test) (predict c best_model X_test))
       (\<lambda>y_test_pred.
     py_bind (invoke (Get_classification_score y_test y_test_pred)
                (get_classification_score c y_test y_test_pred))
       (\<lambda>classification_test_metric.
     py_bind (track_mlflow c best_model classification_train_metric classification_test_metric)
       (\<lambda>_.
     py_bind get_self (\<lambda>slf.
     let object_path = transformed_object_file_path (data_transformation_artifact slf);
         model_path = ModelTrainerConfig.trained_model_file_path (model_trainer_config slf)
     in
     py_bind (invoke (Load_object object_path) (load_object c object_path)) (\<lambda>preprocessor.
     let model_dir_path = os_path_dirname c model_path in
     py_bind (invoke (Os_makedirs model_dir_path True) (os_makedirs c model_dir_path True))
       (\<lambda>_.
     let network_model = \<lparr>preprocessor = preprocessor, model = best_model\<rparr> in
     py_bind (invoke (Save_object model_path (Obj_NetworkModel network_model))
                (save_object c model_path (Obj_NetworkModel network_model))) (\<lambda>_.
     py_bind (invoke (Save_object ''final_model/model.pkl'' (Obj_estimator best_model))
                (save_object c ''final_model/model.pkl'' (Obj_estimator best_model))) (\<lambda>_.
     py_return
       \<lparr>trained_model_file_path = model_path,
        train_metric_artifact = classification_train_metric,
        test_metric_artifact = classification_test_metric\<rparr>))))))))))))))))"

text \<open>\<open>initiate_model_trainer\<close> (lines 138 to 151).\<close>

definition initiate_model_trainer ::
  "('r::ord, 'f, 'p) collaborators \<Rightarrow> ('r ModelTrainerArtifact, ('r, 'f, 'p) frame) py" where
  "initiate_model_trainer c =
     try_except
       (py_bind get_self (\<lambda>slf.
        let train_file_path = transformed_train_file_path (data_transformation_artifact slf);
            test_file_path = transformed_test_file_path (data_transformation_artifact slf)
        in
        py_bind (invoke (Load_numpy_array_data train_file_path)
                   (load_numpy_array_data c train_file_path)) (\<lambda>train_arr.
        py_bind (invoke (Load_numpy_array_data test_file_path)
                   (load_numpy_array_data c test_file_path)) (\<lambda>test_arr.
        py_bind (py_lift (features_and_labels train_arr)) (\<lambda>(X_train, y_train).
        py_bind (py_lift (features_and_labels test_arr)) (\<lambda>(X_test, y_test).
        train_model c X_train y_train X_test y_test))))))
       (\<lambda>e. py_raise (NetworkSecurityException e Sys))"


subsection \<open>The report of evaluate\_models\<close>

text \<open>
  Modelled from the spec: \<open>evaluate_models\<close>
  (networksecurity.utils.main\_utils.utils) is not among the sources. The spec has it
  take each candidate model in turn, search the candidate's hyperparameter grid and
  record the best test score under the candidate's name; one candidate that fails
  aborts the whole. The search itself (\<open>search\<close>, which returns the fitted estimator and
  its score) belongs to the learning library. A candidate with no grid is a
  \<open>KeyError\<close>, as for any dictionary.
\<close>

fun evaluate_models_spec ::
  "('f estimator \<Rightarrow> (string \<times> param_value list) list \<Rightarrow> exn + ('f estimator \<times> 'r)) \<Rightarrow>
   (string \<times> 'f estimator) list \<Rightarrow> param_grid \<Rightarrow>
   exn + ((string \<times> 'r) list \<times> (string \<times> 'f estimator) list)" where
  "evaluate_models_spec search [] param = Inr ([], [])"
| "evaluate_models_spec search ((name, m) # rest) param =
     (case map_of param name of
        None \<Rightarrow> Inl (KeyError name)
      | Some grid \<Rightarrow>
          (case search m grid of
             Inl e \<Rightarrow> Inl e
           | Inr (m', score) \<Rightarrow>
               (case evaluate_models_spec search rest param of
                  Inl e \<Rightarrow> Inl e
                | Inr (report, ms) \<Rightarrow> Inr ((name, score) # report, (name, m') # ms))))"

subsection \<open>Properties of runs\<close>

text \<open>The state \<open>s\<close> after the events \<open>evs\<close> have been appended to its trace.\<close>

definition logged ::
  "('r, 'f, 'p) event list \<Rightarrow> ('r, 'f, 'p, 'z) world_scheme \<Rightarrow> ('r, 'f, 'p, 'z) world_scheme" where
  "logged evs s = s\<lparr>trace := trace s @ evs\<rparr>"

text \<open>The events a run from \<open>s\<close> to \<open>s'\<close> has added.\<close>

definition new_events ::
  "('r, 'f, 'p, 'z) world_scheme \<Rightarrow> ('r, 'f, 'p, 'z) world_scheme \<Rightarrow> ('r, 'f, 'p) event list" where
  "new_events s s' = drop (length (trace s)) (trace s')"



text \<open>
  The discipline of failure. A run that returns a value has seen no call raise. A run
  that raises \<open>e\<close> has made no call after the first that raised, but for the exit of a
  tracking run, and \<open>e\<close> is the exception the last failing call raised (when no call has
  raised, \<open>e\<close> comes from a built-in operation of the file itself).
\<close>

definition discipline :: "exn + 'a \<Rightarrow> ('r, 'f, 'p) event list \<Rightarrow> bool" where
  "discipline r evs =
     (case r of
        Inr v \<Rightarrow> raised evs = []
      | Inl e \<Rightarrow>
          list_all is_run_exit (after_first_failure evs)
          \<and> (raised evs = [] \<or> last (raised evs) = e))"


fun is_log_model :: "('r, 'f, 'p) event \<Rightarrow> bool" where
  "is_log_model (Mlflow_sklearn_log_model m p n r) = True"
| "is_log_model _ = False"

fun saved_path :: "('r, 'f, 'p) event \<Rightarrow> string" where
  "saved_path (Save_object p ob r) = p"
| "saved_path _ = []"

fun is_predict :: "('r, 'f, 'p) event \<Rightarrow> bool" where
  "is_predict (Predict m X r) = True"
| "is_predict _ = False"

fun is_classification_score :: "('r, 'f, 'p) event \<Rightarrow> bool" where
  "is_classification_score (Get_classification_score y yp r) = True"
| "is_classification_score _ = False"

text \<open>
  The events of a \<open>track_mlflow\<close> in which every call returns: \<open>uri\<close> is the value of
  \<open>MLFLOW_TRACKING_URI\<close> in the environment, \<open>tracking_uri\<close> and \<open>parsed\<close> are what
  \<open>get_tracking_uri\<close> and \<open>urlparse\<close> returned, \<open>name\<close> is \<open>self.best_model_name\<close>.
\<close>

definition tracking_events ::
  "string option \<Rightarrow> string \<Rightarrow> ParseResult \<Rightarrow> string \<Rightarrow> 'f estimator \<Rightarrow>
   'r ClassificationMetricArtifact \<Rightarrow> 'r ClassificationMetricArtifact \<Rightarrow>
   ('r, 'f, 'p) event list" where
  "tracking_events uri tracking_uri parsed name best_model train_metrics test_metrics =
     [Mlflow_set_registry_uri uri (Inr ()),
      Mlflow_get_tracking_uri (Inr tracking_uri),
      Urlparse tracking_uri (Inr parsed),
      Mlflow_start_run (name @ ''_experiment'') (Inr ()),
      Mlflow_set_tag ''model_name'' name (Inr ()),
      Mlflow_set_tag ''author'' ''Utsav'' (Inr ()),
      Mlflow_log_metric ''train_f1_score'' (f1_score train_metrics) (Inr ()),
      Mlflow_log_metric ''train_precision'' (precision_score train_metrics) (Inr ()),
      Mlflow_log_metric ''train_recall'' (recall_score train_metrics) (Inr ()),
      Mlflow_log_metric ''test_f1_score'' (f1_score test_metrics) (Inr ()),
      Mlflow_log_metric ''test_precision'' (precision_score test_metrics) (Inr ()),
      Mlflow_log_metric ''test_recall'' (recall_score test_metrics) (Inr ()),
      Mlflow_sklearn_log_model best_model ''model''
        (if scheme parsed \<noteq> ''file'' then Some name else None) (Inr ()),
      Mlflow_run_exit None (Inr ())]"

subsection \<open>Example collaborators\<close>

text \<open>
  Collaborators that all succeed, for the examples: scores are whole percentages, a
  fitted state and a preprocessor are numbers. Decision Tree and Gradient Boosting
  share the best score.
\<close>

definition example_score :: "estimator_class \<Rightarrow> int" where
  "example_score k =
     (case k of
        RandomForestClassifier \<Rightarrow> 90
      | DecisionTreeClassifier \<Rightarrow> 95
      | GradientBoostingClassifier \<Rightarrow> 95
      | LogisticRegression \<Rightarrow> 80
      | AdaBoostClassifier \<Rightarrow> 70)"

definition example_search ::
  "nat estimator \<Rightarrow> (string \<times> param_value list) list \<Rightarrow> exn + (nat estimator \<times> int)" where
  "example_search m grid = Inr (Estimator (cls m) (kwargs m) (Some 1), example_score (cls m))"

definition example_array :: "int ndarray" where
  "example_array = \<lparr>ncols = 3, rows = [[5, 7, 0], [6, 8, 1]]\<rparr>"

definition example_metric :: "int ClassificationMetricArtifact" where
  "example_metric = \<lparr>f1_score = 1, precision_score = 1, recall_score = 1\<rparr>"

definition example_mlflow :: "string \<Rightarrow> ('r, 'f, 'p) mlflow_client" where
  "example_mlflow uri =
     \<lparr>set_registry_uri = (\<lambda>u w. Inr ()),
      get_tracking_uri = (\<lambda>w. Inr uri),
      start_run = (\<lambda>n w. Inr ()),
      run_exit = (\<lambda>x w. Inr ()),
      set_tag = (\<lambda>k v w. Inr ()),
      log_metric = (\<lambda>k v w. Inr ()),
      sklearn_log_model = (\<lambda>m p n w. Inr ())\<rparr>"

definition example_collaborators :: "string \<Rightarrow> (int, nat, nat) collaborators" where
  "example_collaborators uri =
     \<lparr>load_dotenv = (\<lambda>w. Inr []),
      load_numpy_array_data = (\<lambda>p w. Inr example_array),
      evaluate_models = (\<lambda>X y Xt yt ms ps w. evaluate_models_spec example_search ms ps),
      predict = (\<lambda>m X w. Inr (map (\<lambda>r. 0) (rows X))),
      get_classification_score = (\<lambda>y yp w. Inr example_metric),
      mlflow = example_mlflow uri,
      urlparse = (\<lambda>u. Inr \<lparr>scheme = takeWhile (\<lambda>ch. ch \<noteq> CHR '':'') u\<rparr>),
      os_path_dirname = (\<lambda>p. ''artifacts''),
      os_makedirs = (\<lambda>p b w. Inr ()),
      load_object = (\<lambda>p w. Inr 7),
      save_object = (\<lambda>p ob w. Inr ())\<rparr>"

definition example_trainer :: ModelTrainer where
  "example_trainer =
     init \<lparr>ModelTrainerConfig.trained_model_file_path = ''artifacts/model.pkl''\<rparr>
       \<lparr>transformed_object_file_path = ''artifacts/preprocessing.pkl'',
        transformed_train_file_path = ''artifacts/train.npy'',
        transformed_test_file_path = ''artifacts/test.npy''\<rparr>"

definition example_environ :: "(string \<times> string) list" where
  "example_environ =
     [(''MLFLOW_TRACKING_URI'', ''https://tracking.example''),
      (''MLFLOW_TRACKING_USERNAME'', ''user''),
      (''MLFLOW_TRACKING_PASSWORD'', ''secret'')]"

definition example_world :: "(int, nat, nat) world" where
  "example_world = \<lparr>environ = example_environ, trace = []\<rparr>"

definition example_frame :: "(int, nat, nat) frame" where
  "example_frame = \<lparr>environ = example_environ, trace = [], self = example_trainer\<rparr>"

definition example_best_model :: "nat estimator" where
  "example_best_model = Estimator DecisionTreeClassifier [] (Some 1)"

text \<open>The frame of a trainer whose \<open>train_model\<close> has chosen Decision Tree.\<close>

definition example_trained_frame :: "(int, nat, nat) frame" where
  "example_trained_frame =
     \<lparr>environ = example_environ, trace = [],
      self = example_trainer\<lparr>best_model_name := Some ''Decision Tree''\<rparr>\<rparr>"


definition example_features :: "int ndarray" where
  "example_features = \<lparr>ncols = 2, rows = [[5, 7], [6, 8]]\<rparr>"

definition example_labels :: "int list" where
  "example_labels = [0, 1]"

definition example_report :: "(string \<times> int) list" where
  "example_report =
     [(''Random Forest'', 90), (''Decision Tree'', 95), (''Gradient Boosting'', 95),
      (''Logistic Regression'', 80), (''AdaBoost'', 70)]"

definition example_fitted_models :: "(string \<times> nat estimator) list" where
  "example_fitted_models =
     [(''Random Forest'', Estimator RandomForestClassifier [(''verbose'', IntV 1)] (Some 1)),
      (''Decision Tree'', example_best_model),
      (''Gradient Boosting'',
         Estimator GradientBoostingClassifier [(''verbose'', IntV 1)] (Some 1)),
      (''Logistic Regression'', Estimator LogisticRegression [(''verbose'', IntV 1)] (Some 1)),
      (''AdaBoost'', Estimator AdaBoostClassifier [] (Some 1))]"

definition example_artifact :: "int ModelTrainerArtifact" where
  "example_artifact =
     \<lparr>trained_model_file_path = ''artifacts/model.pkl'',
      train_metric_artifact = example_metric, test_metric_artifact = example_metric\<rparr>"

text \<open>The events of \<open>train_model\<close> on the example, with the tracking URI \<open>uri\<close>.\<close>

definition example_training_events :: "string \<Rightarrow> (int, nat, nat) event list" where
  "example_training_events uri =
     [Evaluate_models example_features example_labels example_features example_labels
        models params (Inr (example_report, example_fitted_models)),
      Predict example_best_model example_features (Inr [0, 0]),
      Get_classification_score example_labels [0, 0] (Inr example_metric),
      Predict example_best_model example_features (Inr [0, 0]),
      Get_classification_score example_labels [0, 0] (Inr example_metric)] @
     tracking_events (Some ''https://tracking.example'') uri
       \<lparr>scheme = takeWhile (\<lambda>ch. ch \<noteq> CHR '':'') uri\<rparr> ''Decision Tree''
       example_best_model example_metric example_metric @
     [Load_object ''artifacts/preprocessing.pkl'' (Inr 7),
      Os_makedirs ''artifacts'' True (Inr ()),
      Save_object ''artifacts/model.pkl''
        (Obj_NetworkModel \<lparr>preprocessor = 7, model = example_best_model\<rparr>) (Inr ()),
      Save_object ''final_model/model.pkl'' (Obj_estimator example_best_model) (Inr ())]"

text \<open>An environment in which the user name is set, to the empty string.\<close>

definition example_environ_empty_user :: "(string \<times> string) list" where
  "example_environ_empty_user =
     [(''MLFLOW_TRACKING_URI'', ''https://tracking.example''),
      (''MLFLOW_TRACKING_USERNAME'', []),
      (''MLFLOW_TRACKING_PASSWORD'', ''secret'')]"

definition example_world_empty_user :: "(int, nat, nat) world" where
  "example_world_empty_user = \<lparr>environ = example_environ_empty_user, trace = []\<rparr>"

text \<open>An environment in which the user name is not set.\<close>

definition example_world_without_user :: "(int, nat, nat) world" where
  "example_world_without_user =
     \<lparr>environ =
        [(''MLFLOW_TRACKING_URI'', ''https://tracking.example''),
         (''MLFLOW_TRACKING_PASSWORD'', ''secret'')],
      trace = []\<rparr>"



text \<open>The events of \<open>initiate_model_trainer\<close> on the example.\<close>

definition example_initiate_events :: "string \<Rightarrow> (int, nat, nat) event list" where
  "example_initiate_events uri =
     [Load_numpy_array_data ''artifacts/train.npy'' (Inr example_array),
      Load_numpy_array_data ''artifacts/test.npy'' (Inr example_array)] @
     example_training_events uri"


text \<open>
  The example trainer configured to write the trained model to \<open>final_model/model.pkl\<close>,
  the path \<open>train_model\<close> also writes the bare model to.
\<close>

definition example_frame_fixed_path :: "(int, nat, nat) frame" where
  "example_frame_fixed_path =
     \<lparr>environ = example_environ, trace = [],
      self = example_trainer\<lparr>model_trainer_config :=
        \<lparr>ModelTrainerConfig.trained_model_file_path = ''final_model/model.pkl''\<rparr>\<rparr>\<rparr>"








section \<open>Reading a run\<close>

subsection \<open>States with appended events\<close>

lemma logged_Nil: "logged [] s = s"
  by (simp add: logged_def)



lemma environ_logged: "environ (logged evs s) = environ s"
  by (simp add: logged_def)

lemma self_logged: "self (logged evs s) = self s"
  by (simp add: logged_def)

lemma truncate_logged_self:
  "world.truncate (logged evs (s\<lparr>self := t\<rparr>)) = world.truncate (logged evs s)"
  by (simp add: logged_def world.truncate_def)

lemma new_events_logged: "new_events s (logged evs s) = evs"
  by (simp add: new_events_def logged_def)

lemma new_events_logged_self:
  "new_events s (logged evs (s\<lparr>self := t\<rparr>)) = evs"
  by (simp add: new_events_def logged_def)

lemma new_events_logged_environ:
  "new_events s (logged evs (s\<lparr>environ := t\<rparr>)) = evs"
  by (simp add: new_events_def logged_def)

subsection \<open>When a computation returns\<close>

lemma py_bind_Inr_iff:
  "py_bind m f s = (Inr v, s') \<longleftrightarrow> (\<exists>x s1. m s = (Inr x, s1) \<and> f x s1 = (Inr v, s'))"
  by (auto simp: py_bind_def split: prod.splits sum.splits)

lemma py_return_iff: "py_return v s = (r, s') \<longleftrightarrow> r = Inr v \<and> s' = s"
  by (auto simp: py_return_def)

lemma py_raise_iff: "py_raise e s = (r, s') \<longleftrightarrow> r = Inl e \<and> s' = s"
  by (auto simp: py_raise_def)

lemma py_lift_iff: "py_lift x s = (r, s') \<longleftrightarrow> r = x \<and> s' = s"
  by (auto simp: py_lift_def)

lemma try_except_raise_Inr_iff:
  "try_except m (\<lambda>e. py_raise (h e)) s = (Inr v, s') \<longleftrightarrow> m s = (Inr v, s')"
  by (auto simp: try_except_def py_raise_def split: prod.splits sum.splits)

lemma invoke_logged_Inr_iff:
  "invoke ev f (logged evs s) = (Inr x, s') \<longleftrightarrow>
     f (world.truncate (logged evs s)) = Inr x \<and> s' = logged (evs @ [ev (Inr x)]) s"
  by (auto simp: invoke_def Let_def logged_def)

lemma os_getenv_iff:
  "os_getenv k s = (r, s') \<longleftrightarrow> r = Inr (map_of (environ s) k) \<and> s' = s"
  by (auto simp: os_getenv_def)

lemma get_self_iff: "get_self s = (r, s') \<longleftrightarrow> r = Inr (self s) \<and> s' = s"
  by (auto simp: get_self_def)

lemma get_best_model_name_Inr_iff:
  "get_best_model_name s = (Inr n, s') \<longleftrightarrow> best_model_name (self s) = Some n \<and> s' = s"
  by (auto simp: get_best_model_name_def split: option.splits)

lemma set_best_model_name_logged_iff:
  "set_best_model_name n (logged evs s) = (r, s') \<longleftrightarrow>
     r = Inr () \<and> s' = logged evs (s\<lparr>self := (self s)\<lparr>best_model_name := Some n\<rparr>\<rparr>)"
  by (auto simp: set_best_model_name_def logged_def)

lemma with_start_run_Inr_iff:
  "with_start_run c n body s = (Inr v, s') \<longleftrightarrow>
     (\<exists>s1 s2. invoke (Mlflow_start_run n) (start_run (mlflow c) n) s = (Inr (), s1)
        \<and> body s1 = (Inr v, s2)
        \<and> invoke (Mlflow_run_exit None) (run_exit (mlflow c) None) s2 = (Inr (), s'))"
  by (auto simp: with_start_run_def py_bind_def py_return_def py_raise_def
      split: prod.splits sum.splits)

lemmas mlflow_calls = mlflow_set_tag_def mlflow_log_metric_def mlflow_sklearn_log_model_def

lemmas returns_simps = py_bind_Inr_iff py_return_iff py_lift_iff invoke_logged_Inr_iff
  os_getenv_iff get_self_iff get_best_model_name_Inr_iff set_best_model_name_logged_iff
  with_start_run_Inr_iff environ_logged self_logged

subsection \<open>A tracking run that returns\<close>

lemma track_mlflow_returns:
  assumes "track_mlflow c best_model train_metrics test_metrics (logged evs s) = (Inr (), s')"
  obtains name tracking_uri parsed where
    "best_model_name (self s) = Some name"
    "s' = logged (evs @
       tracking_events (map_of (environ s) ''MLFLOW_TRACKING_URI'') tracking_uri parsed name
         best_model train_metrics test_metrics) s"
proof -
  from assms show thesis
    unfolding track_mlflow_def Let_def mlflow_calls tracking_events_def
    apply (clarsimp simp: returns_simps)
    subgoal for tracking_uri parsed name
      by (rule that[where name=name and tracking_uri=tracking_uri and parsed=parsed])
        (auto simp: returns_simps tracking_events_def split: if_splits)
    done
qed

subsection \<open>A training that returns\<close>

lemma train_model_returns:
  assumes "train_model c X_train y_train X_test y_test (logged evs s) = (Inr artifact, s')"
  obtains report score idx name ms best_model tm tsm y_train_pred y_test_pred
            tracking_uri parsed pre where
    "evaluate_models c X_train y_train X_test y_test models params
       (world.truncate (logged evs s)) = Inr (report, ms)"
    "predict c best_model X_train
       (world.truncate (logged (evs @
         [Evaluate_models X_train y_train X_test y_test models params (Inr (report, ms))]) s))
       = Inr y_train_pred"
    "get_classification_score c y_train y_train_pred
       (world.truncate (logged (evs @
         [Evaluate_models X_train y_train X_test y_test models params (Inr (report, ms)),
          Predict best_model X_train (Inr y_train_pred)]) s))
       = Inr tm"
    "predict c best_model X_test
       (world.truncate (logged (evs @
         [Evaluate_models X_train y_train X_test y_test models params (Inr (report, ms)),
          Predict best_model X_train (Inr y_train_pred),
          Get_classification_score y_train y_train_pred (Inr tm)]) s))
       = Inr y_test_pred"
    "get_classification_score c y_test y_test_pred
       (world.truncate (logged (evs @
         [Evaluate_models X_train y_train X_test y_test models params (Inr (report, ms)),
          Predict best_model X_train (Inr y_train_pred),
          Get_classification_score y_train y_train_pred (Inr tm),
          Predict best_model X_test (Inr y_test_pred)]) s))
       = Inr tsm"
    "py_max (map snd report) = Inr score"
    "list_index (map snd report) score = Inr idx"
    "list_getitem (map fst report) idx = Inr name"
    "dict_getitem ms name = Inr best_model"
    "artifact =
         \<lparr>trained_model_file_path =
            ModelTrainerConfig.trained_model_file_path (model_trainer_config (self s)),
          train_metric_artifact = tm, test_metric_artifact = tsm\<rparr>"
    "s' = logged (evs @
         [Evaluate_models X_train y_train X_test y_test models params (Inr (report, ms)),
          Predict best_model X_train (Inr y_train_pred),
          Get_classification_score y_train y_train_pred (Inr tm),
          Predict best_model X_test (Inr y_test_pred),
          Get_classification_score y_test y_test_pred (Inr tsm)] @
         tracking_events (map_of (environ s) ''MLFLOW_TRACKING_URI'') tracking_uri parsed name
           best_model tm tsm @
         [Load_object (transformed_object_file_path (data_transformation_artifact (self s)))
            (Inr pre),
          Os_makedirs (os_path_dirname c
             (ModelTrainerConfig.trained_model_file_path (model_trainer_config (self s))))
            True (Inr ()),
          Save_object
            (ModelTrainerConfig.trained_model_file_path (model_trainer_config (self s)))
            (Obj_NetworkModel \<lparr>preprocessor = pre, model = best_model\<rparr>) (Inr ()),
          Save_object ''final_model/model.pkl'' (Obj_estimator best_model) (Inr ())])
         (s\<lparr>self := (self s)\<lparr>best_model_name := Some name\<rparr>\<rparr>)"
proof -
  from assms show thesis
    unfolding train_model_def Let_def
    apply (clarsimp simp: returns_simps truncate_logged_self)
    apply (erule track_mlflow_returns)
    apply (clarsimp simp: returns_simps truncate_logged_self)
    subgoal for report ms score idx best_model y_train_pred tm y_test_pred tsm pre name
        tracking_uri parsed
      by (rule that[where report=report and score=score and idx=idx and name=name and ms=ms
            and best_model=best_model and tm=tm and tsm=tsm and y_train_pred=y_train_pred
            and y_test_pred=y_test_pred and tracking_uri=tracking_uri and parsed=parsed
            and pre=pre]) simp_all
    done
qed

section \<open>What a computation leaves unchanged\<close>

lemma logged_self_update: "(logged evs s)\<lparr>self := t\<rparr> = logged evs (s\<lparr>self := t\<rparr>)"
  by (simp add: logged_def)



















section \<open>The discipline of failure\<close>




lemma raised_empty_iff: "raised evs = [] \<longleftrightarrow> (\<forall>ev \<in> set evs. failure ev = None)"
  by (simp add: raised_def map_filter_def filter_empty_conv)

lemma after_first_failure_clean:
  assumes "raised a = []"
  shows "after_first_failure a = []"
proof -
  from assms have "dropWhile (\<lambda>ev. failure ev = None) a = []"
    by (simp add: raised_empty_iff)
  then show ?thesis
    unfolding after_first_failure_def by (simp only: list.sel)
qed







lemma discipline_Inl_cong: "discipline (Inl e :: exn + 'a) evs = discipline (Inl e :: exn + 'b) evs"
  by (simp add: discipline_def)



















section \<open>The candidate set and the hyperparameter grid\<close>

text \<open>
  Claim C7. The names that key the candidate models and the names that key the
  hyperparameter grid are the same set: every candidate has a grid (the one of
  Logistic Regression is empty) and every grid names a candidate. Neither dictionary
  repeats a name, so the correspondence is one to one. The two are declared in
  different orders.
\<close>

theorem candidate_and_grid_names_match:
  "set (map fst (models :: (string \<times> 'f estimator) list)) = set (map fst params)
   \<and> distinct (map fst (models :: (string \<times> 'f estimator) list))
   \<and> distinct (map fst params)
   \<and> map_of params ''Logistic Regression'' = Some []"
  by (auto simp: models_def params_def)

section \<open>Loading the module\<close>

text \<open>
  What the module body does, in every case. The three assignments of lines 33 to 35
  store under each name the value just read from it, so they leave the contents of the
  environment as \<open>load_dotenv\<close> left them.
\<close>

lemma module_body_run:
  "module_body c s =
     (case load_dotenv c (world.truncate s) of
        Inl e \<Rightarrow> (Inl e, logged [Load_dotenv (Inl e)] s)
      | Inr kvs \<Rightarrow>
          (let env = fold (\<lambda>(k, v). AList.update k v) kvs (environ s);
               mlflow_uri = map_of env ''MLFLOW_TRACKING_URI'';
               mlflow_user = map_of env ''MLFLOW_TRACKING_USERNAME'';
               mlflow_pass = map_of env ''MLFLOW_TRACKING_PASSWORD''
           in if truthy mlflow_uri \<and> truthy mlflow_user \<and> truthy mlflow_pass
              then (Inr (),
                    logged
                      [Load_dotenv (Inr kvs),
                       Environ_setitem ''MLFLOW_TRACKING_URI'' (the mlflow_uri),
                       Environ_setitem ''MLFLOW_TRACKING_USERNAME'' (the mlflow_user),
                       Environ_setitem ''MLFLOW_TRACKING_PASSWORD'' (the mlflow_pass)]
                      (s\<lparr>environ := env\<rparr>))
              else (Inl (EnvironmentError
                      ''Missing one or more required MLFLOW environment variables in your .env file.''),
                    logged [Load_dotenv (Inr kvs)] (s\<lparr>environ := env\<rparr>))))"
  by (auto simp: module_body_def py_bind_def invoke_def environ_assign_def os_getenv_def
      environ_setitem_def py_raise_def py_all_def truthy_def logged_def Let_def
      update_conv' update_triv
      split: sum.splits option.splits)

text \<open>
  Claim C3, as amended. Let the environment be as \<open>os.getenv\<close> sees it at lines 26 to
  28, that is after \<open>load_dotenv\<close>. If one of the three credentials is not set there, or
  is set to the empty string, the module body raises \<open>EnvironmentError\<close>: \<open>load_dotenv\<close>
  is the only call made, nothing is assigned, and the rest of the module
  (the class \<open>ModelTrainer\<close>) is never reached. If all three are set and not empty, the
  module body returns.
\<close>

theorem missing_or_empty_credential_is_fatal:
  assumes "load_dotenv c (world.truncate s) = Inr kvs"
  shows "let env = fold (\<lambda>(k, v). AList.update k v) kvs (environ s);
             is_set = (\<lambda>k. \<exists>v. map_of env k = Some v \<and> v \<noteq> [])
         in if is_set ''MLFLOW_TRACKING_URI'' \<and> is_set ''MLFLOW_TRACKING_USERNAME''
                 \<and> is_set ''MLFLOW_TRACKING_PASSWORD''
            then fst (module_body c s) = Inr ()
            else module_body c s =
              (Inl (EnvironmentError
                 ''Missing one or more required MLFLOW environment variables in your .env file.''),
               logged [Load_dotenv (Inr kvs)] (s\<lparr>environ := env\<rparr>))"
proof -
  have "truthy v = (\<exists>x. v = Some x \<and> x \<noteq> [])" for v
    by (cases v) (simp_all add: truthy_def)
  then show ?thesis
    by (simp add: module_body_run assms Let_def)
qed

theorem missing_or_empty_credential_is_fatal_witness:
  "load_dotenv (example_collaborators ''https://tracking.example'')
     (world.truncate example_world_without_user) = Inr []
   \<and> module_body (example_collaborators ''https://tracking.example'')
       example_world_without_user =
     (Inl (EnvironmentError
        ''Missing one or more required MLFLOW environment variables in your .env file.''),
      logged [Load_dotenv (Inr [])] example_world_without_user)
   \<and> load_dotenv (example_collaborators ''https://tracking.example'')
     (world.truncate example_world) = Inr []
   \<and> fst (module_body (example_collaborators ''https://tracking.example'') example_world)
       = Inr ()"
proof -
  have dotenv: "load_dotenv (example_collaborators ''https://tracking.example'') w = Inr []"
    for w
    by (simp add: example_collaborators_def)
  from missing_or_empty_credential_is_fatal [OF dotenv, of example_world_without_user]
  have "module_body (example_collaborators ''https://tracking.example'')
       example_world_without_user =
     (Inl (EnvironmentError
        ''Missing one or more required MLFLOW environment variables in your .env file.''),
      logged [Load_dotenv (Inr [])] example_world_without_user)"
    by (simp add: example_world_without_user_def Let_def)
  moreover
  from missing_or_empty_credential_is_fatal [OF dotenv, of example_world]
  have "fst (module_body (example_collaborators ''https://tracking.example'') example_world)
       = Inr ()"
    by (simp add: example_world_def example_environ_def Let_def)
  ultimately show ?thesis
    using dotenv by simp
qed

text \<open>
  The claim as the spec states it fails where a credential is present and empty: all
  three variables are set, and the error is raised.
\<close>

theorem present_but_empty_credential_counterexample:
  "map_of (environ example_world_empty_user) ''MLFLOW_TRACKING_URI''
     = Some ''https://tracking.example''
   \<and> map_of (environ example_world_empty_user) ''MLFLOW_TRACKING_USERNAME'' = Some []
   \<and> map_of (environ example_world_empty_user) ''MLFLOW_TRACKING_PASSWORD'' = Some ''secret''
   \<and> module_body (example_collaborators ''https://tracking.example'')
       example_world_empty_user =
     (Inl (EnvironmentError
        ''Missing one or more required MLFLOW environment variables in your .env file.''),
      logged [Load_dotenv (Inr [])] example_world_empty_user)"
  by (simp add: module_body_run example_collaborators_def example_world_empty_user_def
      example_environ_empty_user_def truthy_def)

text \<open>
  Claim C10. A module body that returns has, after \<open>load_dotenv\<close>, assigned to
  \<open>os.environ\<close> three times and made no other call: each of the three names is
  assigned the value \<open>os.getenv\<close> read for it, and holds that value afterwards. The
  state of a module body has no trainer in it: the class is defined later.
\<close>

theorem credentials_written_back_at_module_load:
  assumes "module_body c s = (Inr (), s')"
  shows "\<exists>kvs uri user pass.
     new_events s s' =
       [Load_dotenv (Inr kvs),
        Environ_setitem ''MLFLOW_TRACKING_URI'' uri,
        Environ_setitem ''MLFLOW_TRACKING_USERNAME'' user,
        Environ_setitem ''MLFLOW_TRACKING_PASSWORD'' pass]
     \<and> map_of (fold (\<lambda>(k, v). AList.update k v) kvs (environ s)) ''MLFLOW_TRACKING_URI''
          = Some uri
     \<and> map_of (fold (\<lambda>(k, v). AList.update k v) kvs (environ s)) ''MLFLOW_TRACKING_USERNAME''
          = Some user
     \<and> map_of (fold (\<lambda>(k, v). AList.update k v) kvs (environ s)) ''MLFLOW_TRACKING_PASSWORD''
          = Some pass
     \<and> map_of (environ s') ''MLFLOW_TRACKING_URI'' = Some uri
     \<and> map_of (environ s') ''MLFLOW_TRACKING_USERNAME'' = Some user
     \<and> map_of (environ s') ''MLFLOW_TRACKING_PASSWORD'' = Some pass"
proof -
  let ?env = "\<lambda>kvs. fold (\<lambda>(k, v). AList.update k v) kvs (environ s)"
  from assms obtain kvs where
    dotenv: "load_dotenv c (world.truncate s) = Inr kvs"
    by (cases "load_dotenv c (world.truncate s)") (simp_all add: module_body_run)
  from assms dotenv have
    ok: "truthy (map_of (?env kvs) ''MLFLOW_TRACKING_URI'')
       \<and> truthy (map_of (?env kvs) ''MLFLOW_TRACKING_USERNAME'')
       \<and> truthy (map_of (?env kvs) ''MLFLOW_TRACKING_PASSWORD'')"
    by (simp add: module_body_run Let_def split: if_splits)
  then obtain uri user pass where
    read: "map_of (?env kvs) ''MLFLOW_TRACKING_URI'' = Some uri"
      "map_of (?env kvs) ''MLFLOW_TRACKING_USERNAME'' = Some user"
      "map_of (?env kvs) ''MLFLOW_TRACKING_PASSWORD'' = Some pass"
    by (auto simp: truthy_def split: option.splits)
  from assms dotenv ok read have
    s': "s' = logged
       [Load_dotenv (Inr kvs),
        Environ_setitem ''MLFLOW_TRACKING_URI'' uri,
        Environ_setitem ''MLFLOW_TRACKING_USERNAME'' user,
        Environ_setitem ''MLFLOW_TRACKING_PASSWORD'' pass]
       (s\<lparr>environ := ?env kvs\<rparr>)"
    by (simp add: module_body_run Let_def)
  have "new_events s s' =
       [Load_dotenv (Inr kvs),
        Environ_setitem ''MLFLOW_TRACKING_URI'' uri,
        Environ_setitem ''MLFLOW_TRACKING_USERNAME'' user,
        Environ_setitem ''MLFLOW_TRACKING_PASSWORD'' pass]
     \<and> map_of (?env kvs) ''MLFLOW_TRACKING_URI'' = Some uri
     \<and> map_of (?env kvs) ''MLFLOW_TRACKING_USERNAME'' = Some user
     \<and> map_of (?env kvs) ''MLFLOW_TRACKING_PASSWORD'' = Some pass
     \<and> map_of (environ s') ''MLFLOW_TRACKING_URI'' = Some uri
     \<and> map_of (environ s') ''MLFLOW_TRACKING_USERNAME'' = Some user
     \<and> map_of (environ s') ''MLFLOW_TRACKING_PASSWORD'' = Some pass"
    using read by (simp add: s' new_events_logged_environ environ_logged)
  then show ?thesis
    by (intro exI)
qed

theorem credentials_written_back_at_module_load_witness:
  "module_body (example_collaborators ''https://tracking.example'') example_world =
     (Inr (),
      logged
        [Load_dotenv (Inr []),
         Environ_setitem ''MLFLOW_TRACKING_URI'' ''https://tracking.example'',
         Environ_setitem ''MLFLOW_TRACKING_USERNAME'' ''user'',
         Environ_setitem ''MLFLOW_TRACKING_PASSWORD'' ''secret'']
        example_world)
   \<and> (\<exists>kvs uri user pass.
     new_events example_world
       (logged
        [Load_dotenv (Inr []),
         Environ_setitem ''MLFLOW_TRACKING_URI'' ''https://tracking.example'',
         Environ_setitem ''MLFLOW_TRACKING_USERNAME'' ''user'',
         Environ_setitem ''MLFLOW_TRACKING_PASSWORD'' ''secret'']
        example_world) =
       [Load_dotenv (Inr kvs),
        Environ_setitem ''MLFLOW_TRACKING_URI'' uri,
        Environ_setitem ''MLFLOW_TRACKING_USERNAME'' user,
        Environ_setitem ''MLFLOW_TRACKING_PASSWORD'' pass]
     \<and> map_of (fold (\<lambda>(k, v). AList.update k v) kvs (environ example_world))
          ''MLFLOW_TRACKING_URI'' = Some uri
     \<and> map_of (fold (\<lambda>(k, v). AList.update k v) kvs (environ example_world))
          ''MLFLOW_TRACKING_USERNAME'' = Some user
     \<and> map_of (fold (\<lambda>(k, v). AList.update k v) kvs (environ example_world))
          ''MLFLOW_TRACKING_PASSWORD'' = Some pass
     \<and> map_of (environ (logged
        [Load_dotenv (Inr []),
         Environ_setitem ''MLFLOW_TRACKING_URI'' ''https://tracking.example'',
         Environ_setitem ''MLFLOW_TRACKING_USERNAME'' ''user'',
         Environ_setitem ''MLFLOW_TRACKING_PASSWORD'' ''secret'']
        example_world)) ''MLFLOW_TRACKING_URI'' = Some uri
     \<and> map_of (environ (logged
        [Load_dotenv (Inr []),
         Environ_setitem ''MLFLOW_TRACKING_URI'' ''https://tracking.example'',
         Environ_setitem ''MLFLOW_TRACKING_USERNAME'' ''user'',
         Environ_setitem ''MLFLOW_TRACKING_PASSWORD'' ''secret'']
        example_world)) ''MLFLOW_TRACKING_USERNAME'' = Some user
     \<and> map_of (environ (logged
        [Load_dotenv (Inr []),
         Environ_setitem ''MLFLOW_TRACKING_URI'' ''https://tracking.example'',
         Environ_setitem ''MLFLOW_TRACKING_USERNAME'' ''user'',
         Environ_setitem ''MLFLOW_TRACKING_PASSWORD'' ''secret'']
        example_world)) ''MLFLOW_TRACKING_PASSWORD'' = Some pass)"
proof -
  have run: "module_body (example_collaborators ''https://tracking.example'') example_world =
     (Inr (),
      logged
        [Load_dotenv (Inr []),
         Environ_setitem ''MLFLOW_TRACKING_URI'' ''https://tracking.example'',
         Environ_setitem ''MLFLOW_TRACKING_USERNAME'' ''user'',
         Environ_setitem ''MLFLOW_TRACKING_PASSWORD'' ''secret'']
        example_world)"
    by (simp add: module_body_run example_collaborators_def example_world_def
        example_environ_def truthy_def)
  from run credentials_written_back_at_module_load [OF run] show ?thesis
    by (rule conjI)
qed

section \<open>Selecting the best model\<close>



lemma pyfloat_compare [simp]:
  "Num a < Num b \<longleftrightarrow> a < b"
  "Num a \<le> Num b \<longleftrightarrow> a \<le> b"
  "\<not> NaN < x"
  "\<not> x < NaN"
  "\<not> NaN \<le> x"
  "\<not> x \<le> NaN"
  by (simp_all add: less_pyfloat_def less_eq_pyfloat_def split: pyfloat.split)










lemma evaluate_models_spec_names:
  "evaluate_models_spec search ms param = Inr (report, ms') \<Longrightarrow> map fst report = map fst ms"
proof (induction ms arbitrary: report ms')
  case Nil
  then show ?case by simp
next
  case (Cons a ms)
  then show ?case
    by (cases a) (auto split: option.splits sum.splits prod.splits)
qed





section \<open>The tracking run\<close>

text \<open>
  Claim C8. A \<open>track_mlflow\<close> that returns has made exactly these calls, in this order:
  it set the registry URI, read the tracking URI and parsed it, opened one run named
  after the best model (\<open>name_experiment\<close>), set two tags (\<open>model_name\<close>, the best model's
  name, and \<open>author\<close>), logged six metrics (f1, precision and recall of the train bundle,
  then of the test bundle), logged the model once and left the run.
\<close>

theorem track_mlflow_one_run_two_tags_six_metrics:
  assumes "track_mlflow c best_model train_metrics test_metrics s = (Inr (), s')"
  shows "\<exists>name uri tracking_uri parsed registered.
     best_model_name (self s) = Some name
     \<and> new_events s s' =
       [Mlflow_set_registry_uri uri (Inr ()),
        Mlflow_get_tracking_uri (Inr tracking_uri),
        Urlparse tracking_uri (Inr parsed),
        Mlflow_start_run (name @ ''_experiment'') (Inr ()),
        Mlflow_set_tag ''model_name'' name (Inr ()),
        Mlflow_set_tag ''author'' ''Utsav'' (Inr ()),
        Mlflow_log_metric ''train_f1_score'' (f1_score train_metrics) (Inr ()),
        Mlflow_log_metric ''train_precision'' (precision_score train_metrics) (Inr ()),
        Mlflow_log_metric ''train_recall'' (recall_score train_metrics) (Inr ()),
        Mlflow_log_metric ''test_f1_score'' (f1_score test_metrics) (Inr ()),
        Mlflow_log_metric ''test_precision'' (precision_score test_metrics) (Inr ()),
        Mlflow_log_metric ''test_recall'' (recall_score test_metrics) (Inr ()),
        Mlflow_sklearn_log_model best_model ''model'' registered (Inr ()),
        Mlflow_run_exit None (Inr ())]"
proof -
  from assms
  have "track_mlflow c best_model train_metrics test_metrics (logged [] s) = (Inr (), s')"
    by (simp add: logged_Nil)
  then obtain name tracking_uri parsed where
    name: "best_model_name (self s) = Some name" and
    s': "s' = logged ([] @
       tracking_events (map_of (environ s) ''MLFLOW_TRACKING_URI'') tracking_uri parsed name
         best_model train_metrics test_metrics) s"
    by (rule track_mlflow_returns)
  from s' have "new_events s s' =
      tracking_events (map_of (environ s) ''MLFLOW_TRACKING_URI'') tracking_uri parsed name
         best_model train_metrics test_metrics"
    by (simp add: new_events_logged)
  with name show ?thesis
    unfolding tracking_events_def by blast
qed

lemma example_track_mlflow:
  "track_mlflow (example_collaborators uri) example_best_model example_metric example_metric
     example_trained_frame =
   (Inr (),
    logged
      (tracking_events (Some ''https://tracking.example'') uri
         \<lparr>scheme = takeWhile (\<lambda>ch. ch \<noteq> CHR '':'') uri\<rparr> ''Decision Tree''
         example_best_model example_metric example_metric)
      example_trained_frame)"
  by (simp add: track_mlflow_def with_start_run_def py_bind_def py_return_def invoke_def
      os_getenv_def get_best_model_name_def mlflow_calls Let_def logged_def
      tracking_events_def example_collaborators_def example_mlflow_def
      example_trained_frame_def example_environ_def world.truncate_def)

theorem track_mlflow_one_run_two_tags_six_metrics_witness:
  "track_mlflow (example_collaborators ''https://tracking.example'') example_best_model
     example_metric example_metric example_trained_frame =
   (Inr (),
    logged
      (tracking_events (Some ''https://tracking.example'') ''https://tracking.example''
         \<lparr>scheme = ''https''\<rparr> ''Decision Tree''
         example_best_model example_metric example_metric)
      example_trained_frame)
   \<and> (\<exists>name uri tracking_uri parsed registered.
     best_model_name (self example_trained_frame) = Some name
     \<and> new_events example_trained_frame
         (logged
           (tracking_events (Some ''https://tracking.example'') ''https://tracking.example''
              \<lparr>scheme = ''https''\<rparr> ''Decision Tree''
              example_best_model example_metric example_metric)
           example_trained_frame) =
       [Mlflow_set_registry_uri uri (Inr ()),
        Mlflow_get_tracking_uri (Inr tracking_uri),
        Urlparse tracking_uri (Inr parsed),
        Mlflow_start_run (name @ ''_experiment'') (Inr ()),
        Mlflow_set_tag ''model_name'' name (Inr ()),
        Mlflow_set_tag ''author'' ''Utsav'' (Inr ()),
        Mlflow_log_metric ''train_f1_score'' (f1_score example_metric) (Inr ()),
        Mlflow_log_metric ''train_precision'' (precision_score example_metric) (Inr ()),
        Mlflow_log_metric ''train_recall'' (recall_score example_metric) (Inr ()),
        Mlflow_log_metric ''test_f1_score'' (f1_score example_metric) (Inr ()),
        Mlflow_log_metric ''test_precision'' (precision_score example_metric) (Inr ()),
        Mlflow_log_metric ''test_recall'' (recall_score example_metric) (Inr ()),
        Mlflow_sklearn_log_model example_best_model ''model'' registered (Inr ()),
        Mlflow_run_exit None (Inr ())])"
proof -
  have run: "track_mlflow (example_collaborators ''https://tracking.example'')
     example_best_model example_metric example_metric example_trained_frame =
   (Inr (),
    logged
      (tracking_events (Some ''https://tracking.example'') ''https://tracking.example''
         \<lparr>scheme = ''https''\<rparr> ''Decision Tree''
         example_best_model example_metric example_metric)
      example_trained_frame)"
    using example_track_mlflow [of "''https://tracking.example''"] by simp
  from run track_mlflow_one_run_two_tags_six_metrics [OF run] show ?thesis
    by (rule conjI)
qed

text \<open>
  Claim C5. In a \<open>track_mlflow\<close> that returns, the model is logged once, under the
  artifact path \<open>model\<close>. It is given a registered model name (the best model's name)
  exactly when the scheme of the parsed tracking URI is not \<open>file\<close>; when the scheme
  is \<open>file\<close> it is logged with no registered name.
\<close>

theorem registered_name_iff_scheme_not_file:
  assumes "track_mlflow c best_model train_metrics test_metrics s = (Inr (), s')"
  shows "\<exists>name tracking_uri parsed registered.
     best_model_name (self s) = Some name
     \<and> Mlflow_get_tracking_uri (Inr tracking_uri) \<in> set (new_events s s')
     \<and> Urlparse tracking_uri (Inr parsed) \<in> set (new_events s s')
     \<and> filter is_log_model (new_events s s') =
         [Mlflow_sklearn_log_model best_model ''model'' registered (Inr ())]
     \<and> (registered = Some name) = (scheme parsed \<noteq> ''file'')
     \<and> (registered = None) = (scheme parsed = ''file'')"
proof -
  from assms
  have "track_mlflow c best_model train_metrics test_metrics (logged [] s) = (Inr (), s')"
    by (simp add: logged_Nil)
  then obtain name tracking_uri parsed where
    name: "best_model_name (self s) = Some name" and
    s': "s' = logged ([] @
       tracking_events (map_of (environ s) ''MLFLOW_TRACKING_URI'') tracking_uri parsed name
         best_model train_metrics test_metrics) s"
    by (rule track_mlflow_returns)
  let ?registered = "if scheme parsed \<noteq> ''file'' then Some name else None"
  from s' have evs: "new_events s s' =
      tracking_events (map_of (environ s) ''MLFLOW_TRACKING_URI'') tracking_uri parsed name
         best_model train_metrics test_metrics"
    by (simp add: new_events_logged)
  have "Mlflow_get_tracking_uri (Inr tracking_uri) \<in> set (new_events s s')"
    and "Urlparse tracking_uri (Inr parsed) \<in> set (new_events s s')"
    and "filter is_log_model (new_events s s') =
         [Mlflow_sklearn_log_model best_model ''model'' ?registered (Inr ())]"
    unfolding evs tracking_events_def by simp_all
  moreover have "(?registered = Some name) = (scheme parsed \<noteq> ''file'')"
    and "(?registered = None) = (scheme parsed = ''file'')"
    by simp_all
  ultimately have "best_model_name (self s) = Some name
     \<and> Mlflow_get_tracking_uri (Inr tracking_uri) \<in> set (new_events s s')
     \<and> Urlparse tracking_uri (Inr parsed) \<in> set (new_events s s')
     \<and> filter is_log_model (new_events s s') =
         [Mlflow_sklearn_log_model best_model ''model'' ?registered (Inr ())]
     \<and> (?registered = Some name) = (scheme parsed \<noteq> ''file'')
     \<and> (?registered = None) = (scheme parsed = ''file'')"
    using name by (intro conjI)
  then show ?thesis
    by (intro exI)
qed

theorem registered_name_iff_scheme_not_file_witness:
  "(track_mlflow (example_collaborators ''file:///tmp/mlruns'') example_best_model
      example_metric example_metric example_trained_frame =
    (Inr (),
     logged
       (tracking_events (Some ''https://tracking.example'') ''file:///tmp/mlruns''
          \<lparr>scheme = ''file''\<rparr> ''Decision Tree''
          example_best_model example_metric example_metric)
       example_trained_frame))
   \<and> (\<exists>name tracking_uri parsed registered.
     best_model_name (self example_trained_frame) = Some name
     \<and> Mlflow_get_tracking_uri (Inr tracking_uri) \<in> set (new_events example_trained_frame
         (logged
           (tracking_events (Some ''https://tracking.example'') ''file:///tmp/mlruns''
              \<lparr>scheme = ''file''\<rparr> ''Decision Tree''
              example_best_model example_metric example_metric)
           example_trained_frame))
     \<and> Urlparse tracking_uri (Inr parsed) \<in> set (new_events example_trained_frame
         (logged
           (tracking_events (Some ''https://tracking.example'') ''file:///tmp/mlruns''
              \<lparr>scheme = ''file''\<rparr> ''Decision Tree''
              example_best_model example_metric example_metric)
           example_trained_frame))
     \<and> filter is_log_model (new_events example_trained_frame
         (logged
           (tracking_events (Some ''https://tracking.example'') ''file:///tmp/mlruns''
              \<lparr>scheme = ''file''\<rparr> ''Decision Tree''
              example_best_model example_metric example_metric)
           example_trained_frame)) =
         [Mlflow_sklearn_log_model example_best_model ''model'' registered (Inr ())]
     \<and> (registered = Some name) = (scheme parsed \<noteq> ''file'')
     \<and> (registered = None) = (scheme parsed = ''file''))"
proof -
  have run: "track_mlflow (example_collaborators ''file:///tmp/mlruns'') example_best_model
      example_metric example_metric example_trained_frame =
    (Inr (),
     logged
       (tracking_events (Some ''https://tracking.example'') ''file:///tmp/mlruns''
          \<lparr>scheme = ''file''\<rparr> ''Decision Tree''
          example_best_model example_metric example_metric)
       example_trained_frame)"
    using example_track_mlflow [of "''file:///tmp/mlruns''"] by simp
  from run registered_name_iff_scheme_not_file [OF run] show ?thesis
    by (rule conjI)
qed

section \<open>Persisting the model\<close>

lemma example_train_model:
  "train_model (example_collaborators uri) example_features example_labels example_features
     example_labels example_frame =
   (Inr example_artifact, logged (example_training_events uri) example_trained_frame)"
  by (simp add: train_model_def track_mlflow_def with_start_run_def py_bind_def py_return_def
      py_lift_def invoke_def os_getenv_def get_best_model_name_def set_best_model_name_def
      get_self_def mlflow_calls Let_def logged_def tracking_events_def
      py_max_def list_getitem_def dict_getitem_def models_def params_def
      example_collaborators_def example_mlflow_def example_search_def example_score_def
      example_frame_def example_trained_frame_def example_trainer_def init_def
      example_environ_def example_artifact_def example_training_events_def
      example_report_def example_fitted_models_def example_best_model_def
      example_features_def example_labels_def example_metric_def world.truncate_def)

text \<open>
  Claim C4, as amended. A \<open>train_model\<close> that returns has called \<open>save_object\<close> exactly
  twice: first with the configured path and the composite of the loaded preprocessor
  and the best model, then with the fixed path \<open>final_model/model.pkl\<close> and the best
  model alone. The best model is the estimator that the dictionary \<open>evaluate_models\<close>
  has left holds under the selected name (the name at the first position of the
  report with the score \<open>max\<close> returns, which the trainer keeps as \<open>best_model_name\<close>);
  it is the estimator both predictions were made with and the one logged to the
  tracking client. The artifact returned holds the configured path and the two metric
  bundles that \<open>get_classification_score\<close> returned for the predictions on the train
  and on the test split. Nothing compares the configured path with the fixed one.
\<close>

theorem persist_writes_composite_and_bare_model:
  assumes "train_model c X_train y_train X_test y_test s = (Inr artifact, s')"
  shows "\<exists>report ms score idx name best_model pre y_train_pred y_test_pred registered.
     hd (new_events s s') =
       Evaluate_models X_train y_train X_test y_test models params (Inr (report, ms))
     \<and> py_max (map snd report) = Inr score
     \<and> list_index (map snd report) score = Inr idx
     \<and> list_getitem (map fst report) idx = Inr name
     \<and> best_model_name (self s') = Some name
     \<and> dict_getitem ms name = Inr best_model
     \<and> filter is_predict (new_events s s') =
       [Predict best_model X_train (Inr y_train_pred),
        Predict best_model X_test (Inr y_test_pred)]
     \<and> filter is_log_model (new_events s s') =
       [Mlflow_sklearn_log_model best_model ''model'' registered (Inr ())]
     \<and> filter is_save_object (new_events s s') =
       [Save_object (ModelTrainerConfig.trained_model_file_path (model_trainer_config (self s)))
          (Obj_NetworkModel \<lparr>preprocessor = pre, model = best_model\<rparr>) (Inr ()),
        Save_object ''final_model/model.pkl'' (Obj_estimator best_model) (Inr ())]
     \<and> Load_object (transformed_object_file_path (data_transformation_artifact (self s)))
          (Inr pre) \<in> set (new_events s s')
     \<and> filter is_classification_score (new_events s s') =
       [Get_classification_score y_train y_train_pred (Inr (train_metric_artifact artifact)),
        Get_classification_score y_test y_test_pred (Inr (test_metric_artifact artifact))]
     \<and> ModelTrainerArtifact.trained_model_file_path artifact =
         ModelTrainerConfig.trained_model_file_path (model_trainer_config (self s))"
proof -
  let ?path = "ModelTrainerConfig.trained_model_file_path (model_trainer_config (self s))"
  from assms
  have "train_model c X_train y_train X_test y_test (logged [] s) = (Inr artifact, s')"
    by (simp add: logged_Nil)
  then obtain report score idx name ms best_model tm tsm y_train_pred y_test_pred
      tracking_uri parsed pre where
    max: "py_max (map snd report) = Inr score" and
    index: "list_index (map snd report) score = Inr idx" and
    name: "list_getitem (map fst report) idx = Inr name" and
    best: "dict_getitem ms name = Inr best_model" and
    artifact: "artifact =
         \<lparr>trained_model_file_path = ?path,
          train_metric_artifact = tm, test_metric_artifact = tsm\<rparr>" and
    s': "s' = logged ([] @
         [Evaluate_models X_train y_train X_test y_test models params (Inr (report, ms)),
          Predict best_model X_train (Inr y_train_pred),
          Get_classification_score y_train y_train_pred (Inr tm),
          Predict best_model X_test (Inr y_test_pred),
          Get_classification_score y_test y_test_pred (Inr tsm)] @
         tracking_events (map_of (environ s) ''MLFLOW_TRACKING_URI'') tracking_uri parsed name
           best_model tm tsm @
         [Load_object (transformed_object_file_path (data_transformation_artifact (self s)))
            (Inr pre),
          Os_makedirs (os_path_dirname c ?path) True (Inr ()),
          Save_object ?path
            (Obj_NetworkModel \<lparr>preprocessor = pre, model = best_model\<rparr>) (Inr ()),
          Save_object ''final_model/model.pkl'' (Obj_estimator best_model) (Inr ())])
         (s\<lparr>self := (self s)\<lparr>best_model_name := Some name\<rparr>\<rparr>)"
    by (rule train_model_returns)
  from s' have evs: "new_events s s' =
         [Evaluate_models X_train y_train X_test y_test models params (Inr (report, ms)),
          Predict best_model X_train (Inr y_train_pred),
          Get_classification_score y_train y_train_pred (Inr tm),
          Predict best_model X_test (Inr y_test_pred),
          Get_classification_score y_test y_test_pred (Inr tsm)] @
         tracking_events (map_of (environ s) ''MLFLOW_TRACKING_URI'') tracking_uri parsed name
           best_model tm tsm @
         [Load_object (transformed_object_file_path (data_transformation_artifact (self s)))
            (Inr pre),
          Os_makedirs (os_path_dirname c ?path) True (Inr ()),
          Save_object ?path
            (Obj_NetworkModel \<lparr>preprocessor = pre, model = best_model\<rparr>) (Inr ()),
          Save_object ''final_model/model.pkl'' (Obj_estimator best_model) (Inr ())]"
    by (simp add: new_events_logged_self)
  have first: "hd (new_events s s') =
       Evaluate_models X_train y_train X_test y_test models params (Inr (report, ms))"
    unfolding evs by simp
  from s' have kept: "best_model_name (self s') = Some name"
    by (simp add: self_logged)
  have predictions: "filter is_predict (new_events s s') =
       [Predict best_model X_train (Inr y_train_pred),
        Predict best_model X_test (Inr y_test_pred)]"
    unfolding evs tracking_events_def by simp
  have logged_model: "filter is_log_model (new_events s s') =
       [Mlflow_sklearn_log_model best_model ''model''
          (if scheme parsed \<noteq> ''file'' then Some name else None) (Inr ())]"
    unfolding evs tracking_events_def by simp
  have saves: "filter is_save_object (new_events s s') =
       [Save_object ?path (Obj_NetworkModel \<lparr>preprocessor = pre, model = best_model\<rparr>) (Inr ()),
        Save_object ''final_model/model.pkl'' (Obj_estimator best_model) (Inr ())]"
    unfolding evs tracking_events_def by simp
  have loaded: "Load_object (transformed_object_file_path (data_transformation_artifact (self s)))
          (Inr pre) \<in> set (new_events s s')"
    unfolding evs by simp
  have scores: "filter is_classification_score (new_events s s') =
       [Get_classification_score y_train y_train_pred (Inr (train_metric_artifact artifact)),
        Get_classification_score y_test y_test_pred (Inr (test_metric_artifact artifact))]"
    unfolding evs tracking_events_def artifact by simp
  have path: "ModelTrainerArtifact.trained_model_file_path artifact = ?path"
    unfolding artifact by simp
  from first max index name kept best predictions logged_model saves loaded scores path
  have "hd (new_events s s') =
       Evaluate_models X_train y_train X_test y_test models params (Inr (report, ms))
     \<and> py_max (map snd report) = Inr score
     \<and> list_index (map snd report) score = Inr idx
     \<and> list_getitem (map fst report) idx = Inr name
     \<and> best_model_name (self s') = Some name
     \<and> dict_getitem ms name = Inr best_model
     \<and> filter is_predict (new_events s s') =
       [Predict best_model X_train (Inr y_train_pred),
        Predict best_model X_test (Inr y_test_pred)]
     \<and> filter is_log_model (new_events s s') =
       [Mlflow_sklearn_log_model best_model ''model''
          (if scheme parsed \<noteq> ''file'' then Some name else None) (Inr ())]
     \<and> filter is_save_object (new_events s s') =
       [Save_object ?path (Obj_NetworkModel \<lparr>preprocessor = pre, model = best_model\<rparr>) (Inr ()),
        Save_object ''final_model/model.pkl'' (Obj_estimator best_model) (Inr ())]
     \<and> Load_object (transformed_object_file_path (data_transformation_artifact (self s)))
          (Inr pre) \<in> set (new_events s s')
     \<and> filter is_classification_score (new_events s s') =
       [Get_classification_score y_train y_train_pred (Inr (train_metric_artifact artifact)),
        Get_classification_score y_test y_test_pred (Inr (test_metric_artifact artifact))]
     \<and> ModelTrainerArtifact.trained_model_file_path artifact = ?path"
    by (intro conjI)
  then show ?thesis
    by (intro exI)
qed

theorem persist_writes_composite_and_bare_model_witness:
  "train_model (example_collaborators ''https://tracking.example'') example_features
     example_labels example_features example_labels example_frame =
     (Inr example_artifact,
      logged (example_training_events ''https://tracking.example'') example_trained_frame)
   \<and> map saved_path (filter is_save_object
        (example_training_events ''https://tracking.example''))
        = [''artifacts/model.pkl'', ''final_model/model.pkl'']
   \<and> (\<exists>report ms score idx name best_model pre y_train_pred y_test_pred registered.
     hd (new_events example_frame 
         (logged (example_training_events ''https://tracking.example'') example_trained_frame)) =
       Evaluate_models example_features example_labels example_features example_labels models params (Inr (report, ms))
     \<and> py_max (map snd report) = Inr score
     \<and> list_index (map snd report) score = Inr idx
     \<and> list_getitem (map fst report) idx = Inr name
     \<and> best_model_name (self 
         (logged (example_training_events ''https://tracking.example'') example_trained_frame)) = Some name
     \<and> dict_getitem ms name = Inr best_model
     \<and> filter is_predict (new_events example_frame 
         (logged (example_training_events ''https://tracking.example'') example_trained_frame)) =
       [Predict best_model example_features (Inr y_train_pred),
        Predict best_model example_features (Inr y_test_pred)]
     \<and> filter is_log_model (new_events example_frame 
         (logged (example_training_events ''https://tracking.example'') example_trained_frame)) =
       [Mlflow_sklearn_log_model best_model ''model'' registered (Inr ())]
     \<and> filter is_save_object (new_events example_frame 
         (logged (example_training_events ''https://tracking.example'') example_trained_frame)) =
       [Save_object (ModelTrainerConfig.trained_model_file_path (model_trainer_config (self example_frame)))
          (Obj_NetworkModel \<lparr>preprocessor = pre, model = best_model\<rparr>) (Inr ()),
        Save_object ''final_model/model.pkl'' (Obj_estimator best_model) (Inr ())]
     \<and> Load_object (transformed_object_file_path (data_transformation_artifact (self example_frame)))
          (Inr pre) \<in> set (new_events example_frame 
         (logged (example_training_events ''https://tracking.example'') example_trained_frame))
     \<and> filter is_classification_score (new_events example_frame 
         (logged (example_training_events ''https://tracking.example'') example_trained_frame)) =
       [Get_classification_score example_labels y_train_pred (Inr (train_metric_artifact example_artifact)),
        Get_classification_score example_labels y_test_pred (Inr (test_metric_artifact example_artifact))]
     \<and> ModelTrainerArtifact.trained_model_file_path example_artifact =
         ModelTrainerConfig.trained_model_file_path (model_trainer_config (self example_frame)))"
proof -
  have run: "train_model (example_collaborators ''https://tracking.example'') example_features
     example_labels example_features example_labels example_frame =
     (Inr example_artifact,
      logged (example_training_events ''https://tracking.example'') example_trained_frame)"
    by (rule example_train_model)
  have saved: "map saved_path (filter is_save_object
        (example_training_events ''https://tracking.example''))
        = [''artifacts/model.pkl'', ''final_model/model.pkl'']"
    by (simp add: example_training_events_def tracking_events_def)
  from run saved persist_writes_composite_and_bare_model [OF run] show ?thesis
    by (intro conjI)
qed

text \<open>
  The claim as the specification has it, with two files and a fixed path distinct from
  the configured one, fails for a trainer configured with the path
  \<open>final_model/model.pkl\<close>: \<open>train_model\<close> returns, and both calls of \<open>save_object\<close>, for
  the composite and then for the bare model, are given that one path.
\<close>

theorem one_path_written_twice_counterexample:
  "ModelTrainerConfig.trained_model_file_path
       (model_trainer_config (self example_frame_fixed_path)) = ''final_model/model.pkl''
   \<and> fst (train_model (example_collaborators ''https://tracking.example'') example_features
          example_labels example_features example_labels example_frame_fixed_path)
      = Inr \<lparr>trained_model_file_path = ''final_model/model.pkl'',
             train_metric_artifact = example_metric, test_metric_artifact = example_metric\<rparr>
   \<and> filter is_save_object (new_events example_frame_fixed_path
        (snd (train_model (example_collaborators ''https://tracking.example'') example_features
          example_labels example_features example_labels example_frame_fixed_path)))
      = [Save_object ''final_model/model.pkl''
           (Obj_NetworkModel \<lparr>preprocessor = 7, model = example_best_model\<rparr>) (Inr ()),
         Save_object ''final_model/model.pkl'' (Obj_estimator example_best_model) (Inr ())]
   \<and> card (set (map saved_path (filter is_save_object (new_events example_frame_fixed_path
        (snd (train_model (example_collaborators ''https://tracking.example'') example_features
          example_labels example_features example_labels example_frame_fixed_path)))))) = 1"
proof -
  have run: "train_model (example_collaborators ''https://tracking.example'') example_features
     example_labels example_features example_labels example_frame_fixed_path =
   (Inr \<lparr>trained_model_file_path = ''final_model/model.pkl'',
          train_metric_artifact = example_metric, test_metric_artifact = example_metric\<rparr>,
    logged
      ([Evaluate_models example_features example_labels example_features example_labels
          models params (Inr (example_report, example_fitted_models)),
        Predict example_best_model example_features (Inr [0, 0]),
        Get_classification_score example_labels [0, 0] (Inr example_metric),
        Predict example_best_model example_features (Inr [0, 0]),
        Get_classification_score example_labels [0, 0] (Inr example_metric)] @
       tracking_events (Some ''https://tracking.example'') ''https://tracking.example''
         \<lparr>scheme = ''https''\<rparr> ''Decision Tree''
         example_best_model example_metric example_metric @
       [Load_object ''artifacts/preprocessing.pkl'' (Inr 7),
        Os_makedirs ''artifacts'' True (Inr ()),
        Save_object ''final_model/model.pkl''
          (Obj_NetworkModel \<lparr>preprocessor = 7, model = example_best_model\<rparr>) (Inr ()),
        Save_object ''final_model/model.pkl'' (Obj_estimator example_best_model) (Inr ())])
      (example_frame_fixed_path\<lparr>self := (self example_frame_fixed_path)
         \<lparr>best_model_name := Some ''Decision Tree''\<rparr>\<rparr>))"
    by (simp add: train_model_def track_mlflow_def with_start_run_def py_bind_def py_return_def
      py_lift_def invoke_def os_getenv_def get_best_model_name_def set_best_model_name_def
      get_self_def mlflow_calls Let_def logged_def tracking_events_def
      py_max_def list_getitem_def dict_getitem_def models_def params_def
      example_collaborators_def example_mlflow_def example_search_def example_score_def
      example_frame_fixed_path_def example_trainer_def init_def
      example_environ_def
      example_report_def example_fitted_models_def example_best_model_def
      example_features_def example_labels_def example_metric_def world.truncate_def)
  have path: "ModelTrainerConfig.trained_model_file_path
       (model_trainer_config (self example_frame_fixed_path)) = ''final_model/model.pkl''"
    by (simp add: example_frame_fixed_path_def)
  show ?thesis
    unfolding run fst_conv snd_conv new_events_logged_self tracking_events_def
    using path by simp
qed

section \<open>Tracking and the result of training\<close>





section \<open>Features and labels\<close>

lemma features_and_labels_Inr:
  assumes "features_and_labels a = Inr (X, y)"
  shows "0 < ncols a" and "ncols X = ncols a - 1"
    and "rows X = map butlast (rows a)" and "y = map last (rows a)"
  using assms
  by (auto simp: features_and_labels_def all_but_last_column_def last_column_def Let_def
      split: if_splits)

text \<open>
  On an array whose rows all have \<open>ncols\<close> entries, the labels are the last column and
  the features are the columns before it, each at its place.
\<close>

lemma features_and_labels_columns:
  assumes split: "features_and_labels a = Inr (X, y)" and wf: "wf_ndarray a"
  shows "y = column (ncols a - 1) a"
    and "\<forall>j<ncols a - 1. column j X = column j a"
    and "wf_ndarray X"
proof -
  note parts = features_and_labels_Inr [OF split]
  from wf have len: "length r = ncols a" if "r \<in> set (rows a)" for r
    using that by (simp add: wf_ndarray_def list_all_iff)
  have "last r = r ! (ncols a - 1)" if "r \<in> set (rows a)" for r
  proof -
    from that have "length r = ncols a"
      by (rule len)
    with parts(1) have "r \<noteq> []"
      by auto
    then have "last r = r ! (length r - 1)"
      by (rule last_conv_nth)
    with that len show ?thesis
      by simp
  qed
  with parts(4) show "y = column (ncols a - 1) a"
    by (simp add: column_def)
  have "butlast r ! j = r ! j" if "r \<in> set (rows a)" "j < ncols a - 1" for r j
    using that len by (simp add: nth_butlast)
  with parts(3) show "\<forall>j<ncols a - 1. column j X = column j a"
    by (simp add: column_def)
  from parts(2,3) len show "wf_ndarray X"
    by (simp add: wf_ndarray_def list_all_iff)
qed

lemma initiate_model_trainer_returns:
  assumes "initiate_model_trainer c (logged [] s) = (Inr artifact, s')"
  obtains train_arr test_arr X_train y_train X_test y_test r evs where
    "features_and_labels train_arr = Inr (X_train, y_train)"
    "features_and_labels test_arr = Inr (X_test, y_test)"
    "new_events s s' =
       [Load_numpy_array_data
          (transformed_train_file_path (data_transformation_artifact (self s))) (Inr train_arr),
        Load_numpy_array_data
          (transformed_test_file_path (data_transformation_artifact (self s))) (Inr test_arr),
        Evaluate_models X_train y_train X_test y_test models params r] @ evs"
proof -
  from assms show thesis
    unfolding initiate_model_trainer_def Let_def
    apply (clarsimp simp: try_except_raise_Inr_iff returns_simps)
    apply (erule train_model_returns)
    subgoal for train_arr test_arr X_train y_train X_test y_test
      by (rule that[where train_arr=train_arr and test_arr=test_arr and X_train=X_train
            and y_train=y_train and X_test=X_test and y_test=y_test])
        (simp_all add: new_events_logged_self)
    done
qed

text \<open>
  Claim C6. In an \<open>initiate_model_trainer\<close> that returns, the first three calls are the
  two loads and \<open>evaluate_models\<close>, and the four arrays \<open>evaluate_models\<close> receives are
  split from the two arrays loaded: of the train array and of the test array alike, the
  labels are the last entry of every row and the features are the entries before it.
  When the rows of the loaded array all have its number of columns, that is its last
  column and its columns before the last.
\<close>

theorem labels_are_the_last_column:
  fixes c :: "('r::ord, 'f, 'p) collaborators"
  assumes "initiate_model_trainer c s = (Inr artifact, s')"
  shows "\<exists>train_arr test_arr X_train y_train X_test y_test r.
     take 3 (new_events s s') =
       [Load_numpy_array_data
          (transformed_train_file_path (data_transformation_artifact (self s))) (Inr train_arr),
        Load_numpy_array_data
          (transformed_test_file_path (data_transformation_artifact (self s))) (Inr test_arr),
        Evaluate_models X_train y_train X_test y_test models params r]
     \<and> 0 < ncols train_arr \<and> ncols X_train = ncols train_arr - 1
     \<and> rows X_train = map butlast (rows train_arr) \<and> y_train = map last (rows train_arr)
     \<and> (wf_ndarray train_arr \<longrightarrow>
           y_train = column (ncols train_arr - 1) train_arr
           \<and> (\<forall>j<ncols train_arr - 1. column j X_train = column j train_arr))
     \<and> 0 < ncols test_arr \<and> ncols X_test = ncols test_arr - 1
     \<and> rows X_test = map butlast (rows test_arr) \<and> y_test = map last (rows test_arr)
     \<and> (wf_ndarray test_arr \<longrightarrow>
           y_test = column (ncols test_arr - 1) test_arr
           \<and> (\<forall>j<ncols test_arr - 1. column j X_test = column j test_arr))"
proof -
  from assms have "initiate_model_trainer c (logged [] s) = (Inr artifact, s')"
    by (simp add: logged_Nil)
  then obtain train_arr test_arr X_train y_train X_test y_test r evs where
    train: "features_and_labels train_arr = Inr (X_train, y_train)" and
    test: "features_and_labels test_arr = Inr (X_test, y_test)" and
    evs: "new_events s s' =
       [Load_numpy_array_data
          (transformed_train_file_path (data_transformation_artifact (self s))) (Inr train_arr),
        Load_numpy_array_data
          (transformed_test_file_path (data_transformation_artifact (self s))) (Inr test_arr),
        Evaluate_models X_train y_train X_test y_test models params r] @ evs"
    by (rule initiate_model_trainer_returns)
  from evs have "take 3 (new_events s s') =
       [Load_numpy_array_data
          (transformed_train_file_path (data_transformation_artifact (self s))) (Inr train_arr),
        Load_numpy_array_data
          (transformed_test_file_path (data_transformation_artifact (self s))) (Inr test_arr),
        Evaluate_models X_train y_train X_test y_test models params r]"
    by simp
  moreover note features_and_labels_Inr [OF train] features_and_labels_Inr [OF test]
  moreover have "wf_ndarray train_arr \<longrightarrow>
           y_train = column (ncols train_arr - 1) train_arr
           \<and> (\<forall>j<ncols train_arr - 1. column j X_train = column j train_arr)"
    using features_and_labels_columns [OF train] by blast
  moreover have "wf_ndarray test_arr \<longrightarrow>
           y_test = column (ncols test_arr - 1) test_arr
           \<and> (\<forall>j<ncols test_arr - 1. column j X_test = column j test_arr)"
    using features_and_labels_columns [OF test] by blast
  ultimately have "take 3 (new_events s s') =
       [Load_numpy_array_data
          (transformed_train_file_path (data_transformation_artifact (self s))) (Inr train_arr),
        Load_numpy_array_data
          (transformed_test_file_path (data_transformation_artifact (self s))) (Inr test_arr),
        Evaluate_models X_train y_train X_test y_test models params r]
     \<and> 0 < ncols train_arr \<and> ncols X_train = ncols train_arr - 1
     \<and> rows X_train = map butlast (rows train_arr) \<and> y_train = map last (rows train_arr)
     \<and> (wf_ndarray train_arr \<longrightarrow>
           y_train = column (ncols train_arr - 1) train_arr
           \<and> (\<forall>j<ncols train_arr - 1. column j X_train = column j train_arr))
     \<and> 0 < ncols test_arr \<and> ncols X_test = ncols test_arr - 1
     \<and> rows X_test = map butlast (rows test_arr) \<and> y_test = map last (rows test_arr)
     \<and> (wf_ndarray test_arr \<longrightarrow>
           y_test = column (ncols test_arr - 1) test_arr
           \<and> (\<forall>j<ncols test_arr - 1. column j X_test = column j test_arr))"
    by (intro conjI)
  then show ?thesis
    by (intro exI)
qed

lemma example_initiate_model_trainer:
  "initiate_model_trainer (example_collaborators uri) example_frame =
     (Inr example_artifact, logged (example_initiate_events uri) example_trained_frame)"
proof -
  have split: "features_and_labels example_array = Inr (example_features, example_labels)"
    by (simp add: features_and_labels_def all_but_last_column_def last_column_def
        example_array_def example_features_def example_labels_def)
  have loads: "load_numpy_array_data (example_collaborators uri) p w = Inr example_array"
    for p w
    by (simp add: example_collaborators_def)
  have paths:
    "transformed_train_file_path (data_transformation_artifact (self example_frame))
      = ''artifacts/train.npy''"
    "transformed_test_file_path (data_transformation_artifact (self example_frame))
      = ''artifacts/test.npy''"
    by (simp_all add: example_frame_def example_trainer_def init_def)
  have start: "example_frame = logged [] example_frame"
    by (simp add: logged_Nil)
  have "train_model (example_collaborators uri) example_features example_labels
      example_features example_labels
      (logged [Load_numpy_array_data ''artifacts/train.npy'' (Inr example_array),
               Load_numpy_array_data ''artifacts/test.npy'' (Inr example_array)]
         example_frame)
    = (Inr example_artifact, logged (example_initiate_events uri) example_trained_frame)"
    by (simp add: train_model_def track_mlflow_def with_start_run_def py_bind_def py_return_def
      py_lift_def invoke_def os_getenv_def get_best_model_name_def set_best_model_name_def
      get_self_def mlflow_calls Let_def logged_def tracking_events_def
      py_max_def list_getitem_def dict_getitem_def models_def params_def
      example_collaborators_def example_mlflow_def example_search_def example_score_def
      example_frame_def example_trained_frame_def example_trainer_def init_def
      example_environ_def example_artifact_def example_training_events_def
      example_initiate_events_def
      example_report_def example_fitted_models_def example_best_model_def
      example_features_def example_labels_def example_metric_def world.truncate_def)
  then show ?thesis
    unfolding initiate_model_trainer_def Let_def
    apply (subst start)
    apply (simp only: try_except_def py_bind_def get_self_def invoke_def Let_def prod.case
        sum.case self_logged paths loads py_lift_def split)
    apply (simp add: logged_def)
    done
qed

theorem labels_are_the_last_column_witness:
  "initiate_model_trainer (example_collaborators ''https://tracking.example'') example_frame =
     (Inr example_artifact,
      logged (example_initiate_events ''https://tracking.example'') example_trained_frame)
   \<and> wf_ndarray example_array
   \<and> (\<exists>train_arr test_arr X_train y_train X_test y_test r.
     take 3 (new_events example_frame
        (logged (example_initiate_events ''https://tracking.example'')
           example_trained_frame)) =
       [Load_numpy_array_data
          (transformed_train_file_path (data_transformation_artifact (self example_frame)))
          (Inr train_arr),
        Load_numpy_array_data
          (transformed_test_file_path (data_transformation_artifact (self example_frame)))
          (Inr test_arr),
        Evaluate_models X_train y_train X_test y_test models params r]
     \<and> 0 < ncols train_arr \<and> ncols X_train = ncols train_arr - 1
     \<and> rows X_train = map butlast (rows train_arr) \<and> y_train = map last (rows train_arr)
     \<and> (wf_ndarray train_arr \<longrightarrow>
           y_train = column (ncols train_arr - 1) train_arr
           \<and> (\<forall>j<ncols train_arr - 1. column j X_train = column j train_arr))
     \<and> 0 < ncols test_arr \<and> ncols X_test = ncols test_arr - 1
     \<and> rows X_test = map butlast (rows test_arr) \<and> y_test = map last (rows test_arr)
     \<and> (wf_ndarray test_arr \<longrightarrow>
           y_test = column (ncols test_arr - 1) test_arr
           \<and> (\<forall>j<ncols test_arr - 1. column j X_test = column j test_arr)))"
proof -
  have run: "initiate_model_trainer (example_collaborators ''https://tracking.example'')
      example_frame =
     (Inr example_artifact,
      logged (example_initiate_events ''https://tracking.example'') example_trained_frame)"
    by (rule example_initiate_model_trainer)
  have wf: "wf_ndarray example_array"
    by (simp add: wf_ndarray_def example_array_def)
  from run wf labels_are_the_last_column [OF run] show ?thesis
    by (intro conjI)
qed

section \<open>Failures of the orchestration\<close>





end
